theory Spec2Isabelle
  imports Main
begin

section \<open>The SpaceTraders driver: values, process state and the remote server\<close>

text \<open>
  The repository holds two variants of one driver: \<^verbatim>\<open>src/index.ts\<close> and the older
  \<^verbatim>\<open>src/unnamed/part_000\<close>. A function of the driver that differs between the two
  files, or calls one that does, takes the variant as its first argument and branches on
  it exactly where the files differ.
\<close>

datatype source = Index_ts | Part_000

subsection \<open>Symbols\<close>

text \<open>
  Symbols and ids are strings or \<^verbatim>\<open>undefined\<close> (\<open>None\<close>). A template literal
  prints \<^verbatim>\<open>undefined\<close> as the word.
\<close>

type_synonym sym = "string option"

definition truthy_sym :: "sym \<Rightarrow> bool" where
  "truthy_sym s = (case s of None \<Rightarrow> False | Some x \<Rightarrow> x \<noteq> [])"

definition tpl :: "sym \<Rightarrow> string" where
  "tpl s = (case s of None \<Rightarrow> ''undefined'' | Some x \<Rightarrow> x)"

text \<open>\<^verbatim>\<open>a || b\<close> and \<^verbatim>\<open>a ?? b\<close> on symbols.\<close>

definition or_sym :: "sym \<Rightarrow> sym \<Rightarrow> sym" where
  "or_sym a b = (if truthy_sym a then a else b)"

definition coalesce_sym :: "sym \<Rightarrow> sym \<Rightarrow> sym" where
  "coalesce_sym a b = (case a of None \<Rightarrow> b | Some x \<Rightarrow> Some x)"

subsection \<open>Graph references\<close>

text \<open>
  A reference addresses a node of the graph without fetching it: \<^verbatim>\<open>root.ships.one({symbol})\<close>
  is \<open>Ships_one symbol\<close>, \<^verbatim>\<open>root.systems.one({symbol: s}).waypoints.one({symbol: w})\<close>
  is \<open>Waypoints_one s w\<close>, \<^verbatim>\<open>root.factions.page({page, limit})\<close> is
  \<open>Factions_page page limit\<close>, and so on.
\<close>

datatype gref =
    Factions_page int "int option"
  | Contracts_one sym
  | Contracts_page int "int option"
  | Ships_one sym
  | Ships_page int "int option"
  | Systems_one sym
  | Systems_page int "int option"
  | Waypoints_one sym sym
  | Waypoints_page sym int "int option"

subsection \<open>JavaScript values\<close>

text \<open>
  The values that travel through the driver are JSON payloads of the remote API, plus
  JavaScript's \<^verbatim>\<open>undefined\<close> and graph references (an argument object may hold
  one). Numbers are the integers the API sends (counts, page numbers, seconds); an object
  is the list of its properties, looked up by name.
\<close>

datatype json =
    JUndefined
  | JNull
  | JBool bool
  | JNum int
  | JStr string
  | JArr "json list"
  | JObj "(string \<times> json) list"
  | JRef gref

text \<open>JavaScript truthiness, as tested by \<^verbatim>\<open>if (v)\<close>, \<^verbatim>\<open>a && b\<close> and \<^verbatim>\<open>a || b\<close>.\<close>

fun truthy :: "json \<Rightarrow> bool" where
  "truthy JUndefined = False"
| "truthy JNull = False"
| "truthy (JBool b) = b"
| "truthy (JNum n) = (n \<noteq> 0)"
| "truthy (JStr s) = (s \<noteq> [])"
| "truthy (JArr xs) = True"
| "truthy (JObj ps) = True"
| "truthy (JRef r) = True"

fun nullish :: "json \<Rightarrow> bool" where
  "nullish JUndefined = True"
| "nullish JNull = True"
| "nullish v = False"

text \<open>
  \<^verbatim>\<open>v[name]\<close> on a value that is neither null nor undefined: an object yields the
  property or \<^verbatim>\<open>undefined\<close>; the names read by the driver (data, meta, token,
  transactions, ...) are not properties of any primitive, array or reference.
\<close>

fun field :: "json \<Rightarrow> string \<Rightarrow> json" where
  "field (JObj ps) name = (case map_of ps name of None \<Rightarrow> JUndefined | Some v \<Rightarrow> v)"
| "field v name = JUndefined"

text \<open>Optional chaining \<^verbatim>\<open>v?.name\<close> and nullish coalescing \<^verbatim>\<open>a ?? b\<close>.\<close>

definition opt :: "json \<Rightarrow> string \<Rightarrow> json" where
  "opt v name = (if nullish v then JUndefined else field v name)"

definition coalesce :: "json \<Rightarrow> json \<Rightarrow> json" where
  "coalesce a b = (if nullish a then b else a)"

definition json_of_sym :: "sym \<Rightarrow> json" where
  "json_of_sym s = (case s of None \<Rightarrow> JUndefined | Some x \<Rightarrow> JStr x)"

subsection \<open>Errors and outcomes\<close>

text \<open>
  \<open>ApiError status text\<close> is the \<^verbatim>\<open>Error\<close> that \<^verbatim>\<open>api\<close> throws with a
  \<^verbatim>\<open>status\<close> property; \<open>Error msg\<close> is a plain \<^verbatim>\<open>new Error(msg)\<close>;
  \<open>TypeError\<close> is what the runtime throws on destructuring or reading a property of
  \<^verbatim>\<open>null\<close> or \<^verbatim>\<open>undefined\<close>; \<open>SyntaxError\<close> is \<^verbatim>\<open>res.json()\<close> on a body
  that is not JSON.
\<close>

datatype error = ApiError nat string | Error string | TypeError | SyntaxError

text \<open>
  An asynchronous call returns, throws, or is still waiting for a response that the
  server has not sent (\<open>Pending\<close>).
\<close>

datatype 'a outcome = Return 'a | Throw error | Pending

subsection \<open>Requests, responses and the world\<close>

datatype http_method = GET | POST | PATCH

text \<open>
  A request as \<^verbatim>\<open>api\<close> hands it to \<^verbatim>\<open>fetch\<close>. The URL is kept in parts: the path
  and the query parameters that \<^verbatim>\<open>URLSearchParams\<close> encodes (\<open>None\<close> when no query
  object is given, so no \<^verbatim>\<open>?\<close> is appended). \<open>authorization = Some t\<close> stands for
  the header \<^verbatim>\<open>Authorization: Bearer ${t}\<close>. \<open>req_body\<close> is the value given to
  \<^verbatim>\<open>JSON.stringify\<close>.
\<close>

record request =
  req_method :: http_method
  req_path :: string
  req_query :: "(string \<times> json) list option"
  authorization :: "json option"
  req_body :: json

text \<open>
  A response: its status, its body as text (\<^verbatim>\<open>res.text()\<close>) and the same body as
  parsed JSON (\<^verbatim>\<open>res.json()\<close>; \<open>None\<close> when it does not parse).
\<close>

record response =
  status :: nat
  text_body :: string
  json_body :: "json option"

text \<open>
  The world is the process-wide \<^verbatim>\<open>state\<close> object (\<open>data\<close>, the two caches; a
  missing key reads as \<^verbatim>\<open>undefined\<close>, and no key is the name of a property that
  every JavaScript object inherits) together with the remote server: \<open>script\<close>
  holds the responses the server will give, in order, and \<open>sent\<close> logs every request
  handed to \<^verbatim>\<open>fetch\<close>, in order. \<open>scheduled\<close> logs the timers set with
  \<^verbatim>\<open>$invokeAt\<close> (arrival time, waypoint symbol).
\<close>

record world =
  data :: json
  cachedMarkets :: "string \<Rightarrow> json"
  cachedJumpGates :: "string \<Rightarrow> json"
  script :: "response list"
  sent :: "request list"
  scheduled :: "(json \<times> sym) list"

type_synonym 'a action = "world \<Rightarrow> 'a outcome \<times> world"

definition ret :: "'a \<Rightarrow> 'a action" where
  "ret x w = (Return x, w)"

definition throw :: "error \<Rightarrow> 'a action" where
  "throw e w = (Throw e, w)"

text \<open>\<^verbatim>\<open>const x = await m; ...\<close>: the rest runs only when \<open>m\<close> returns.\<close>

definition await :: "'a action \<Rightarrow> ('a \<Rightarrow> 'b action) \<Rightarrow> 'b action" where
  "await m f w =
     (case m w of
        (Return x, w') \<Rightarrow> f x w'
      | (Throw e, w') \<Rightarrow> (Throw e, w')
      | (Pending, w') \<Rightarrow> (Pending, w'))"

text \<open>\<^verbatim>\<open>v.name\<close>: a TypeError when \<open>v\<close> is null or undefined.\<close>

definition dot :: "json \<Rightarrow> string \<Rightarrow> json action" where
  "dot v name = (if nullish v then throw TypeError else ret (field v name))"

section \<open>The HTTP client \<^verbatim>\<open>api\<close>\<close>

text \<open>
  The retry test on a response. \<^verbatim>\<open>src/index.ts\<close>:
  \<^verbatim>\<open>res.status === 429 || (res.status === 408 && retry < 5)\<close>;
  \<^verbatim>\<open>src/unnamed/part_000\<close>: \<^verbatim>\<open>res.status === 429 && retry < 5\<close>.
\<close>

definition throttled :: "source \<Rightarrow> nat \<Rightarrow> nat \<Rightarrow> bool" where
  "throttled v st retry =
     (case v of
        Index_ts \<Rightarrow> st = 429 \<or> (st = 408 \<and> retry < 5)
      | Part_000 \<Rightarrow> st = 429 \<and> retry < 5)"

text \<open>Keys whose value is \<^verbatim>\<open>undefined\<close> are deleted from the query object.\<close>

definition clean_query :: "(string \<times> json) list \<Rightarrow> (string \<times> json) list" where
  "clean_query q = filter (\<lambda>(k, x). x \<noteq> JUndefined) q"

definition build_request ::
  "http_method \<Rightarrow> string \<Rightarrow> (string \<times> json) list option \<Rightarrow> json \<Rightarrow> world \<Rightarrow> request" where
  "build_request m path query body w =
     \<lparr> req_method = m,
       req_path = path,
       req_query = map_option clean_query query,
       authorization =
         (if truthy (opt (data w) ''token'') then Some (field (data w) ''token'') else None),
       req_body = body \<rparr>"

text \<open>
  \<^verbatim>\<open>fetch\<close>: the request is logged; the server's next response, if it has one, is
  consumed.
\<close>

definition fetch :: "request \<Rightarrow> response action" where
  "fetch req w =
     (case script w of
        [] \<Rightarrow> (Pending, w\<lparr>sent := sent w @ [req]\<rparr>)
      | res # rest \<Rightarrow> (Return res, w\<lparr>script := rest, sent := sent w @ [req]\<rparr>))"

text \<open>
  \<^verbatim>\<open>api(method, path, query, body, retry)\<close>. Each call sends one request; a throttled
  response makes the function call itself with \<open>retry + 1\<close> (the \<^verbatim>\<open>sleep\<close> in
  between changes nothing the model holds). A status of 300 or more throws, 204 yields
  the empty object, anything else is parsed as JSON.
\<close>

function api ::
  "source \<Rightarrow> http_method \<Rightarrow> string \<Rightarrow> (string \<times> json) list option \<Rightarrow> json \<Rightarrow> nat \<Rightarrow> json action"
where
  "api v m path query body retry w =
     (case fetch (build_request m path query body w) w of
        (Return res, w') \<Rightarrow>
          (if throttled v (status res) retry
           then api v m path (map_option clean_query query) body (retry + 1) w'
           else if status res \<ge> 300
           then (Throw (ApiError (status res) (text_body res)), w')
           else if status res = 204
           then (Return (JObj []), w')
           else (case json_body res of
                   None \<Rightarrow> (Throw SyntaxError, w')
                 | Some j \<Rightarrow> (Return j, w')))
      | (Throw e, w') \<Rightarrow> (Throw e, w')
      | (Pending, w') \<Rightarrow> (Pending, w'))"
  by pat_completeness auto
termination
  by (relation "measure (\<lambda>(v, m, path, query, body, retry, w). length (script w))")
     (auto simp: fetch_def split: list.splits)

declare api.simps [simp del]

subsection \<open>Evaluating \<^verbatim>\<open>fetch\<close> on an explicit world\<close>

lemma fetch_Cons:
  "fetch req \<lparr>data = d, cachedMarkets = cm, cachedJumpGates = cj,
              script = res # rest, sent = s, scheduled = sc\<rparr>
   = (Return res, \<lparr>data = d, cachedMarkets = cm, cachedJumpGates = cj,
                    script = rest, sent = s @ [req], scheduled = sc\<rparr>)"
  by (simp add: fetch_def)

lemma fetch_Nil:
  "fetch req \<lparr>data = d, cachedMarkets = cm, cachedJumpGates = cj,
              script = [], sent = s, scheduled = sc\<rparr>
   = (Pending, \<lparr>data = d, cachedMarkets = cm, cachedJumpGates = cj,
                 script = [], sent = s @ [req], scheduled = sc\<rparr>)"
  by (simp add: fetch_def)

text \<open>A freshly started process (nothing stored) facing a server with the given script.\<close>

definition fresh_world :: "response list \<Rightarrow> world" where
  "fresh_world rs =
     \<lparr> data = JUndefined, cachedMarkets = (\<lambda>k. JUndefined), cachedJumpGates = (\<lambda>k. JUndefined),
       script = rs, sent = [], scheduled = [] \<rparr>"

definition too_many_requests :: response where
  "too_many_requests = \<lparr> status = 429, text_body = ''Too Many Requests'', json_body = None \<rparr>"

definition ok_agent :: response where
  \<open>ok_agent =
     \<lparr> status = 200, text_body = ''{"data":{"symbol":"AGENT"}}'',
       json_body = Some (JObj [(''data'', JObj [(''symbol'', JStr ''AGENT'')])]) \<rparr>\<close>

subsection \<open>Retries\<close>

text \<open>Every call of \<^verbatim>\<open>api\<close> sends at least one request.\<close>

lemma api_sent_grows:
  "Suc (length (sent w)) \<le> length (sent (snd (api v m path query body retry w)))"
proof (induction v m path query body retry w rule: api.induct)
  case (1 v m path query body retry w)
  show ?case
  proof (cases "script w")
    case Nil
    then show ?thesis by (subst api.simps) (simp add: fetch_def)
  next
    case (Cons res rest)
    show ?thesis
    proof (cases "throttled v (status res) retry")
      case True
      have "fetch (build_request m path query body w) w
          = (Return res, w\<lparr>script := rest, sent := sent w @ [build_request m path query body w]\<rparr>)"
        using Cons by (simp add: fetch_def)
      from "1.IH"[OF this[symmetric] refl True] this True
      show ?thesis by (subst api.simps) simp
    next
      case False
      then show ?thesis using Cons
        by (subst api.simps) (simp add: fetch_def split: option.splits)
    qed
  qed
qed

text \<open>
  In \<^verbatim>\<open>src/unnamed/part_000\<close> the retry counter bounds the attempts: a call that starts
  at \<open>retry = 0\<close> sends at most six requests, and it comes back once the server has
  answered six times.
\<close>

lemma api_part_000_bound:
  "length (sent (snd (api Part_000 m path query body retry w)))
     \<le> length (sent w) + (if retry < 5 then 6 - retry else 1)"
proof (induction "Part_000" m path query body retry w rule: api.induct)
  case (1 m path query body retry w)
  show ?case
  proof (cases "script w")
    case Nil
    then show ?thesis by (subst api.simps) (auto simp: fetch_def)
  next
    case (Cons res rest)
    have f: "fetch (build_request m path query body w) w
          = (Return res, w\<lparr>script := rest, sent := sent w @ [build_request m path query body w]\<rparr>)"
      using Cons by (simp add: fetch_def)
    show ?thesis
    proof (cases "throttled Part_000 (status res) retry")
      case True
      then have r: "retry < 5" by (simp add: throttled_def)
      from "1.hyps"[OF f[symmetric] refl True] f True r
      show ?thesis by (subst api.simps) (auto split: if_splits)
    next
      case False
      then show ?thesis using f
        by (subst api.simps) (auto split: option.splits)
    qed
  qed
qed

lemma api_part_000_returns:
  "6 - retry \<le> length (script w) \<Longrightarrow> retry \<le> 5 \<Longrightarrow>
   fst (api Part_000 m path query body retry w) \<noteq> Pending"
proof (induction "Part_000" m path query body retry w rule: api.induct)
  case (1 m path query body retry w)
  from "1.prems" obtain res rest where Cons: "script w = res # rest"
    by (cases "script w") auto
  have f: "fetch (build_request m path query body w) w
          = (Return res, w\<lparr>script := rest, sent := sent w @ [build_request m path query body w]\<rparr>)"
    using Cons by (simp add: fetch_def)
  show ?case
  proof (cases "throttled Part_000 (status res) retry")
    case True
    then have r: "retry < 5" by (simp add: throttled_def)
    have "fst (api Part_000 m path (map_option clean_query query) body (retry + 1)
       (w\<lparr>script := rest, sent := sent w @ [build_request m path query body w]\<rparr>)) \<noteq> Pending"
      using "1.prems" Cons r by (intro "1.hyps"[OF f[symmetric] refl True]) auto
    then show ?thesis using f True by (subst api.simps) simp
  next
    case False
    then show ?thesis using f
      by (subst api.simps) (simp split: option.splits)
  qed
qed

text \<open>
  In \<^verbatim>\<open>src/index.ts\<close> the same bound holds as long as the server never answers 429
  (status 408 is retried below retry count 5 only).
\<close>

lemma api_index_ts_bound_without_429:
  "\<forall>r\<in>set (script w). status r \<noteq> 429 \<Longrightarrow>
   length (sent (snd (api Index_ts m path query body retry w)))
     \<le> length (sent w) + (if retry < 5 then 6 - retry else 1)"
proof (induction "Index_ts" m path query body retry w rule: api.induct)
  case (1 m path query body retry w)
  show ?case
  proof (cases "script w")
    case Nil
    then show ?thesis by (subst api.simps) (auto simp: fetch_def)
  next
    case (Cons res rest)
    have f: "fetch (build_request m path query body w) w
          = (Return res, w\<lparr>script := rest, sent := sent w @ [build_request m path query body w]\<rparr>)"
      using Cons by (simp add: fetch_def)
    show ?thesis
    proof (cases "throttled Index_ts (status res) retry")
      case True
      then have r: "retry < 5" using "1.prems" Cons by (simp add: throttled_def)
      have "\<forall>r\<in>set (script (w\<lparr>script := rest,
               sent := sent w @ [build_request m path query body w]\<rparr>)). status r \<noteq> 429"
        using "1.prems" Cons by simp
      from "1.hyps"[OF f[symmetric] refl True this] f True r
      show ?thesis by (subst api.simps) (auto split: if_splits)
    next
      case False
      then show ?thesis using f
        by (subst api.simps) (auto split: option.splits)
    qed
  qed
qed

text \<open>
  But the test \<^verbatim>\<open>retry < 5\<close> of \<^verbatim>\<open>src/index.ts\<close> guards status 408 only: as long
  as the server answers 429, the client asks again, whatever the retry counter.
\<close>

lemma api_index_ts_429_unbounded:
  "\<forall>r\<in>set rs. status r = 429 \<Longrightarrow> script w = rs \<Longrightarrow>
   fst (api Index_ts m path query body retry w) = Pending \<and>
   length (sent (snd (api Index_ts m path query body retry w))) = length (sent w) + length rs + 1"
proof (induction rs arbitrary: w query retry)
  case Nil
  then show ?case by (subst api.simps, subst (2) api.simps) (simp add: fetch_def)
next
  case (Cons r rs)
  have f: "fetch (build_request m path query body w) w
          = (Return r, w\<lparr>script := rs, sent := sent w @ [build_request m path query body w]\<rparr>)"
    using Cons.prems by (simp add: fetch_def)
  have "script (w\<lparr>script := rs, sent := sent w @ [build_request m path query body w]\<rparr>) = rs"
    by simp
  from Cons.IH[OF _ this, of "map_option clean_query query" "retry + 1"] Cons.prems(1)
  show ?case by (subst api.simps, subst (2) api.simps) (simp add: f throttled_def)
qed

text \<open>
  Claim C1. A throttling response is retried while the retry count is below 5; at retry
  count 5 it is no longer retried and is raised as an ApiError, so a call makes at most
  six attempts. \<^verbatim>\<open>src/unnamed/part_000\<close> does this (\<open>api_part_000_bound\<close>), and so
  does \<^verbatim>\<open>src/index.ts\<close> for status 408 (\<open>api_index_ts_bound_without_429\<close>); for
  status 429 \<^verbatim>\<open>src/index.ts\<close> does not.
  On a server that answers 429 six times and then 200, the call of \<^verbatim>\<open>src/index.ts\<close>
  retries at retry count 5, sends a seventh request and returns the body of the 200
  response, where the call of \<^verbatim>\<open>src/unnamed/part_000\<close> throws the ApiError of status 429
  after six requests.
\<close>

theorem api_index_ts_retries_429_at_retry_5:
  "fst (api Index_ts GET ''my/agent'' None JUndefined 0
          (fresh_world [too_many_requests, too_many_requests, too_many_requests,
                        too_many_requests, too_many_requests, too_many_requests, ok_agent]))
     = Return (JObj [(''data'', JObj [(''symbol'', JStr ''AGENT'')])])
   \<and> length (sent (snd (api Index_ts GET ''my/agent'' None JUndefined 0
          (fresh_world [too_many_requests, too_many_requests, too_many_requests,
                        too_many_requests, too_many_requests, too_many_requests, ok_agent]))))
     = 7
   \<and> fst (api Part_000 GET ''my/agent'' None JUndefined 0
          (fresh_world [too_many_requests, too_many_requests, too_many_requests,
                        too_many_requests, too_many_requests, too_many_requests, ok_agent]))
     = Throw (ApiError 429 ''Too Many Requests'')
   \<and> length (sent (snd (api Part_000 GET ''my/agent'' None JUndefined 0
          (fresh_world [too_many_requests, too_many_requests, too_many_requests,
                        too_many_requests, too_many_requests, too_many_requests, ok_agent]))))
     = 6"
  by (simp add: api.simps fetch_Cons fetch_Nil fresh_world_def too_many_requests_def
        ok_agent_def throttled_def)

section \<open>Reading a reference\<close>

text \<open>
  \<^verbatim>\<open>ref.$argsAt(root.systems.one)\<close> and its siblings: the arguments given at that step
  of the reference's path, \<open>None\<close> (\<^verbatim>\<open>undefined\<close>) when the path has no such step.
  The value inside is the \<^verbatim>\<open>symbol\<close> (or \<^verbatim>\<open>id\<close>) argument.
\<close>

fun argsAt_systems_one :: "gref \<Rightarrow> sym option" where
  "argsAt_systems_one (Systems_one s) = Some s"
| "argsAt_systems_one (Waypoints_one s x) = Some s"
| "argsAt_systems_one (Waypoints_page s p l) = Some s"
| "argsAt_systems_one r = None"

fun argsAt_waypoints_one :: "gref \<Rightarrow> sym option" where
  "argsAt_waypoints_one (Waypoints_one s x) = Some x"
| "argsAt_waypoints_one r = None"

fun argsAt_ships_one :: "gref \<Rightarrow> sym option" where
  "argsAt_ships_one (Ships_one s) = Some s"
| "argsAt_ships_one r = None"

fun argsAt_contracts_one :: "gref \<Rightarrow> sym option" where
  "argsAt_contracts_one (Contracts_one i) = Some i"
| "argsAt_contracts_one r = None"

text \<open>\<^verbatim>\<open>args?.symbol\<close> and \<^verbatim>\<open>args.symbol\<close> on the result of \<^verbatim>\<open>$argsAt\<close>.\<close>

definition opt_symbol :: "sym option \<Rightarrow> sym" where
  "opt_symbol a = (case a of None \<Rightarrow> None | Some s \<Rightarrow> s)"

definition dot_symbol :: "sym option \<Rightarrow> sym action" where
  "dot_symbol a = (case a of None \<Rightarrow> throw TypeError | Some s \<Rightarrow> ret s)"

record resolver_context =
  systemSymbol :: sym

section \<open>Pages\<close>

record page_args =
  page :: "int option"
  limit :: "int option"

text \<open>\<open>next_page = None\<close> is \<^verbatim>\<open>next: null\<close>.\<close>

record page_result =
  items :: json
  next_page :: "gref option"

definition json_of_int :: "int option \<Rightarrow> json" where
  "json_of_int n = (case n of None \<Rightarrow> JUndefined | Some i \<Rightarrow> JNum i)"

definition page_query :: "page_args \<Rightarrow> (string \<times> json) list" where
  "page_query args = [(''page'', json_of_int (page args)), (''limit'', json_of_int (limit args))]"

text \<open>\<^verbatim>\<open>(args.page ?? 1) + 1\<close>\<close>

definition following :: "page_args \<Rightarrow> int" where
  "following args = (case page args of None \<Rightarrow> 1 | Some p \<Rightarrow> p) + 1"

text \<open>
  Arithmetic on payload values: \<^verbatim>\<open>ToNumber\<close> of a number, boolean, null or undefined
  (\<open>None\<close> is NaN). The API sends numbers here; a string, array or object, which
  JavaScript would convert through its text, is taken as NaN. Products are exact, as
  JavaScript's are below \<open>2^53\<close>.
\<close>

fun to_number :: "json \<Rightarrow> int option" where
  "to_number (JNum n) = Some n"
| "to_number (JBool b) = Some (if b then 1 else 0)"
| "to_number JNull = Some 0"
| "to_number v = None"

definition js_times :: "json \<Rightarrow> json \<Rightarrow> int option" where
  "js_times a b =
     (case to_number a of
        None \<Rightarrow> None
      | Some x \<Rightarrow> (case to_number b of None \<Rightarrow> None | Some y \<Rightarrow> Some (x * y)))"

definition js_greater :: "json \<Rightarrow> int option \<Rightarrow> bool" where
  "js_greater a b =
     (case to_number a of
        None \<Rightarrow> False
      | Some x \<Rightarrow> (case b of None \<Rightarrow> False | Some y \<Rightarrow> x > y))"

text \<open>
  \<^verbatim>\<open>const { total, page, limit } = res.meta; const hasNext = total > page * limit;\<close>
  Destructuring \<^verbatim>\<open>null\<close> or \<^verbatim>\<open>undefined\<close> is a TypeError.
\<close>

definition hasNext :: "json \<Rightarrow> bool action" where
  "hasNext res =
     await (dot res ''meta'') (\<lambda>meta.
       if nullish meta then throw TypeError
       else ret (js_greater (field meta ''total'')
                   (js_times (field meta ''page'') (field meta ''limit''))))"

text \<open>
  \<^verbatim>\<open>FactionCollection.page\<close> and \<^verbatim>\<open>ContractCollection.page\<close> (the same in both files):
  \<^verbatim>\<open>next\<close> is built without looking at \<^verbatim>\<open>res.meta\<close>.
\<close>

definition FactionCollection_page :: "source \<Rightarrow> page_args \<Rightarrow> page_result action" where
  "FactionCollection_page v args =
     await (api v GET ''factions'' (Some (page_query args)) JUndefined 0) (\<lambda>res.
     await (dot res ''data'') (\<lambda>d.
       ret \<lparr> items = d, next_page = Some (Factions_page (following args) (limit args)) \<rparr>))"

definition ContractCollection_page :: "source \<Rightarrow> page_args \<Rightarrow> page_result action" where
  "ContractCollection_page v args =
     await (api v GET ''my/contracts'' (Some (page_query args)) JUndefined 0) (\<lambda>res.
     await (dot res ''data'') (\<lambda>d.
       ret \<lparr> items = d, next_page = Some (Contracts_page (following args) (limit args)) \<rparr>))"

text \<open>\<^verbatim>\<open>ShipCollection.page\<close>, \<^verbatim>\<open>SystemCollection.page\<close>, \<^verbatim>\<open>WaypointCollection.page\<close>.\<close>

definition ShipCollection_page :: "source \<Rightarrow> page_args \<Rightarrow> page_result action" where
  "ShipCollection_page v args =
     await (api v GET ''my/ships'' (Some (page_query args)) JUndefined 0) (\<lambda>res.
     await (hasNext res) (\<lambda>has.
       ret \<lparr> items = field res ''data'',
             next_page = (if \<not> has then None
                          else Some (Ships_page (following args) (limit args))) \<rparr>))"

definition SystemCollection_page :: "source \<Rightarrow> page_args \<Rightarrow> page_result action" where
  "SystemCollection_page v args =
     await (api v GET ''systems'' (Some (page_query args)) JUndefined 0) (\<lambda>res.
     await (hasNext res) (\<lambda>has.
       ret \<lparr> items = field res ''data'',
             next_page = (if \<not> has then None
                          else Some (Systems_page (following args) (limit args))) \<rparr>))"

definition WaypointCollection_page ::
  "source \<Rightarrow> page_args \<Rightarrow> gref \<Rightarrow> resolver_context \<Rightarrow> page_result action" where
  "WaypointCollection_page v args self ctx =
     (let system = or_sym (opt_symbol (argsAt_systems_one self)) (systemSymbol ctx) in
      await (api v GET (''systems/'' @ tpl system @ ''/waypoints'')
               (Some (page_query args)) JUndefined 0) (\<lambda>res.
      await (hasNext res) (\<lambda>has.
        ret \<lparr> items = field res ''data'',
              next_page = (if \<not> has then None
                           else Some (Waypoints_page system (following args) (limit args))) \<rparr>)))"

subsection \<open>Sequencing\<close>

lemma await_Return: "m w = (Return x, w') \<Longrightarrow> await m f w = f x w'"
  by (simp add: await_def)

lemma await_Throw: "m w = (Throw e, w') \<Longrightarrow> await m f w = (Throw e, w')"
  by (simp add: await_def)

lemma await_Pending: "m w = (Pending, w') \<Longrightarrow> await m f w = (Pending, w')"
  by (simp add: await_def)

lemma field_defined_not_nullish: "field v name \<noteq> JUndefined \<Longrightarrow> \<not> nullish v"
  by (cases v) auto

subsection \<open>What \<^verbatim>\<open>next\<close> is\<close>

lemma hasNext_numbers:
  assumes "field (field res ''meta'') ''total'' = JNum t"
    and "field (field res ''meta'') ''page'' = JNum p"
    and "field (field res ''meta'') ''limit'' = JNum l"
  shows "hasNext res w = (Return (t > p * l), w)"
proof -
  have m: "\<not> nullish (field res ''meta'')"
    using assms(1) by (intro field_defined_not_nullish[of _ "''total''"]) simp
  then have "field res ''meta'' \<noteq> JUndefined" by auto
  then have r: "\<not> nullish res" by (rule field_defined_not_nullish)
  show ?thesis using m r assms
    by (simp add: hasNext_def dot_def await_def ret_def js_greater_def js_times_def)
qed

text \<open>
  Ships, systems and waypoints: when the response carries the three numbers, \<^verbatim>\<open>next\<close>
  is null exactly when \<open>total \<le> page * limit\<close>, and otherwise the same page operation
  with \<^verbatim>\<open>(args.page ?? 1) + 1\<close> and the same limit.
\<close>

lemma ShipCollection_page_next:
  assumes "api v GET ''my/ships'' (Some (page_query args)) JUndefined 0 w = (Return res, w')"
    and "field (field res ''meta'') ''total'' = JNum t"
    and "field (field res ''meta'') ''page'' = JNum p"
    and "field (field res ''meta'') ''limit'' = JNum l"
  shows "ShipCollection_page v args w =
     (Return \<lparr> items = field res ''data'',
               next_page = (if t \<le> p * l then None
                            else Some (Ships_page (following args) (limit args))) \<rparr>, w')"
  using assms(1) hasNext_numbers[OF assms(2-4)]
  by (auto simp: ShipCollection_page_def await_def ret_def)

lemma SystemCollection_page_next:
  assumes "api v GET ''systems'' (Some (page_query args)) JUndefined 0 w = (Return res, w')"
    and "field (field res ''meta'') ''total'' = JNum t"
    and "field (field res ''meta'') ''page'' = JNum p"
    and "field (field res ''meta'') ''limit'' = JNum l"
  shows "SystemCollection_page v args w =
     (Return \<lparr> items = field res ''data'',
               next_page = (if t \<le> p * l then None
                            else Some (Systems_page (following args) (limit args))) \<rparr>, w')"
  using assms(1) hasNext_numbers[OF assms(2-4)]
  by (auto simp: SystemCollection_page_def await_def ret_def)

lemma WaypointCollection_page_next:
  assumes "system = or_sym (opt_symbol (argsAt_systems_one self)) (systemSymbol ctx)"
    and "api v GET (''systems/'' @ tpl system @ ''/waypoints'') (Some (page_query args))
           JUndefined 0 w = (Return res, w')"
    and "field (field res ''meta'') ''total'' = JNum t"
    and "field (field res ''meta'') ''page'' = JNum p"
    and "field (field res ''meta'') ''limit'' = JNum l"
  shows "WaypointCollection_page v args self ctx w =
     (Return \<lparr> items = field res ''data'',
               next_page = (if t \<le> p * l then None
                            else Some (Waypoints_page system (following args) (limit args))) \<rparr>,
      w')"
  using assms(1,2) hasNext_numbers[OF assms(3-5)]
  by (auto simp: WaypointCollection_page_def await_def ret_def Let_def)

text \<open>Factions and contracts: whatever the response, a returned page has a \<^verbatim>\<open>next\<close>.\<close>

lemma FactionCollection_page_next:
  "fst (FactionCollection_page v args w) = Return r \<Longrightarrow>
   next_page r = Some (Factions_page (following args) (limit args))"
  by (auto simp: FactionCollection_page_def await_def dot_def ret_def throw_def
           split: prod.splits outcome.splits if_splits)

lemma ContractCollection_page_next:
  "fst (ContractCollection_page v args w) = Return r \<Longrightarrow>
   next_page r = Some (Contracts_page (following args) (limit args))"
  by (auto simp: ContractCollection_page_def await_def dot_def ret_def throw_def
           split: prod.splits outcome.splits if_splits)

text \<open>A last page: one item, and \<open>total = 1 \<le> 1 * 10 = page * limit\<close>.\<close>

definition last_page :: response where
  \<open>last_page =
     \<lparr> status = 200,
       text_body = ''{"data":[{"symbol":"COSMIC"}],"meta":{"total":1,"page":1,"limit":10}}'',
       json_body = Some (JObj [(''data'', JArr [JObj [(''symbol'', JStr ''COSMIC'')]]),
                               (''meta'', JObj [(''total'', JNum 1), (''page'', JNum 1),
                                                (''limit'', JNum 10)])]) \<rparr>\<close>

text \<open>
  Claim C2. For every page operation of every collection, \<^verbatim>\<open>next\<close> is null if and only
  if \<open>total \<le> page * limit\<close>, and otherwise refers to the same operation with the page
  incremented and the same limit. The pages of ships, systems and waypoints do this
  (\<open>ShipCollection_page_next\<close>, \<open>SystemCollection_page_next\<close>,
  \<open>WaypointCollection_page_next\<close>); the pages of factions and contracts, in both files,
  never read \<^verbatim>\<open>res.meta\<close>. On the last page (total 1, page 1, limit 10) they return a
  \<^verbatim>\<open>next\<close> that addresses page 2, where the ship page returns null.
\<close>

theorem faction_and_contract_page_next_on_last_page:
  "fst (FactionCollection_page v \<lparr>page = Some 1, limit = Some 10\<rparr> (fresh_world [last_page]))
     = Return \<lparr> items = JArr [JObj [(''symbol'', JStr ''COSMIC'')]],
                next_page = Some (Factions_page 2 (Some 10)) \<rparr>
   \<and> fst (ContractCollection_page v \<lparr>page = Some 1, limit = Some 10\<rparr> (fresh_world [last_page]))
     = Return \<lparr> items = JArr [JObj [(''symbol'', JStr ''COSMIC'')]],
                next_page = Some (Contracts_page 2 (Some 10)) \<rparr>
   \<and> fst (ShipCollection_page v \<lparr>page = Some 1, limit = Some 10\<rparr> (fresh_world [last_page]))
     = Return \<lparr> items = JArr [JObj [(''symbol'', JStr ''COSMIC'')]],
                next_page = None \<rparr>"
  by (cases v)
     (simp_all add: FactionCollection_page_def ContractCollection_page_def
        ShipCollection_page_def await_def api.simps fetch_Cons fresh_world_def last_page_def
        throttled_def dot_def ret_def following_def page_query_def hasNext_def
        js_greater_def js_times_def)

section \<open>What one call of \<^verbatim>\<open>api\<close> does to the world\<close>

lemma clean_query_idem: "clean_query (clean_query q) = clean_query q"
  by (simp add: clean_query_def)

lemma build_request_clean:
  "data w' = data w \<Longrightarrow>
   build_request m path (map_option clean_query query) body w' = build_request m path query body w"
  by (cases query) (simp_all add: build_request_def clean_query_idem)

text \<open>The process state and the timers are left alone.\<close>

lemma api_frame:
  "data (snd (api v m path query body retry w)) = data w \<and>
   cachedMarkets (snd (api v m path query body retry w)) = cachedMarkets w \<and>
   cachedJumpGates (snd (api v m path query body retry w)) = cachedJumpGates w \<and>
   scheduled (snd (api v m path query body retry w)) = scheduled w"
proof (induction v m path query body retry w rule: api.induct)
  case (1 v m path query body retry w)
  show ?case
  proof (cases "script w")
    case Nil
    then show ?thesis by (subst (1 2 3 4) api.simps) (simp add: fetch_def)
  next
    case (Cons res rest)
    have f: "fetch (build_request m path query body w) w
          = (Return res, w\<lparr>script := rest, sent := sent w @ [build_request m path query body w]\<rparr>)"
      using Cons by (simp add: fetch_def)
    show ?thesis
    proof (cases "throttled v (status res) retry")
      case True
      from "1.IH"[OF f[symmetric] refl True] f True
      show ?thesis by (subst (1 2 3 4) api.simps) simp
    next
      case False
      then show ?thesis using f
        by (subst (1 2 3 4) api.simps) (simp split: option.splits)
    qed
  qed
qed

text \<open>The requests of one call are one request, sent once and once more per retry.\<close>

lemma api_sent:
  "\<exists>n. sent (snd (api v m path query body retry w))
        = sent w @ replicate (Suc n) (build_request m path query body w)"
proof (induction v m path query body retry w rule: api.induct)
  case (1 v m path query body retry w)
  show ?case
  proof (cases "script w")
    case Nil
    then have "sent (snd (api v m path query body retry w))
        = sent w @ replicate (Suc 0) (build_request m path query body w)"
      by (subst api.simps) (simp add: fetch_def)
    then show ?thesis by blast
  next
    case (Cons res rest)
    let ?w' = "w\<lparr>script := rest, sent := sent w @ [build_request m path query body w]\<rparr>"
    have f: "fetch (build_request m path query body w) w = (Return res, ?w')"
      using Cons by (simp add: fetch_def)
    show ?thesis
    proof (cases "throttled v (status res) retry")
      case True
      from "1.IH"[OF f[symmetric] refl True] obtain n where
        n: "sent (snd (api v m path (map_option clean_query query) body (retry + 1) ?w'))
           = sent ?w' @ replicate (Suc n)
               (build_request m path (map_option clean_query query) body ?w')"
        by blast
      have b: "build_request m path (map_option clean_query query) body ?w'
             = build_request m path query body w"
        by (rule build_request_clean) simp
      have "sent (snd (api v m path query body retry w))
          = sent w @ replicate (Suc (Suc n)) (build_request m path query body w)"
        using n f True unfolding b by (subst api.simps) simp
      then show ?thesis by blast
    next
      case False
      then have "sent (snd (api v m path query body retry w))
        = sent w @ replicate (Suc 0) (build_request m path query body w)"
        using f by (subst api.simps) (simp split: option.splits)
      then show ?thesis by blast
    qed
  qed
qed

text \<open>A first response that is not throttled ends the call after one request.\<close>

lemma api_once:
  assumes "script w = res # rest" and "\<not> throttled v (status res) retry"
  shows "sent (snd (api v m path query body retry w))
           = sent w @ [build_request m path query body w]"
    and "script (snd (api v m path query body retry w)) = rest"
  using assms by (subst api.simps, simp add: fetch_def split: option.splits)+

section \<open>The query-shape inspector and \<^verbatim>\<open>SystemCollection.one\<close>\<close>

text \<open>
  \<^verbatim>\<open>ResolverInfo\<close>: the field nodes, each with the selections of its selection set; a
  selection is given by its \<^verbatim>\<open>name.value\<close>.
\<close>

record field_node =
  selections :: "string list"

record resolver_info =
  fieldNodes :: "field_node list"

text \<open>\<^verbatim>\<open>info.fieldNodes.flatMap(({ selectionSet: { selections } }) => selections)\<close>\<close>

definition selected :: "resolver_info \<Rightarrow> string list" where
  "selected info = concat (map selections (fieldNodes info))"

definition shouldFetch :: "resolver_info \<Rightarrow> string list \<Rightarrow> bool" where
  "shouldFetch info simpleFields = list_ex (\<lambda>value. value \<notin> set simpleFields) (selected info)"

definition SystemCollection_one :: "source \<Rightarrow> sym \<Rightarrow> resolver_info \<Rightarrow> json action" where
  "SystemCollection_one v symbol info =
     (if \<not> shouldFetch info [''symbol'', ''waypoints'']
      then ret (JObj [(''symbol'', json_of_sym symbol)])
      else await (api v GET (''systems/'' @ tpl symbol) None JUndefined 0) (\<lambda>res.
             dot res ''data''))"

lemma shouldFetch_iff:
  "shouldFetch info simpleFields = (\<not> set (selected info) \<subseteq> set simpleFields)"
  by (auto simp: shouldFetch_def list_ex_iff)

lemma await_sent:
  assumes "\<And>x w'. sent (snd (f x w')) = sent w'"
  shows "sent (snd (await m f w)) = sent (snd (m w))"
  using assms by (auto simp: await_def split: prod.splits outcome.splits)

lemma dot_world: "snd (dot v name w) = w"
  by (simp add: dot_def throw_def ret_def)

definition ok_system :: response where
  \<open>ok_system =
     \<lparr> status = 200, text_body = ''{"data":{"symbol":"X1-AB12","type":"RED_STAR"}}'',
       json_body = Some (JObj [(''data'', JObj [(''symbol'', JStr ''X1-AB12''),
                                                 (''type'', JStr ''RED_STAR'')])]) \<rparr>\<close>

text \<open>
  Claim C5, as the claim states it, fails: a selection that holds \<^verbatim>\<open>waypoints\<close>, a
  field name other than \<^verbatim>\<open>symbol\<close>, makes no fetch, because
  \<^verbatim>\<open>SystemCollection.one\<close> passes \<^verbatim>\<open>["symbol", "waypoints"]\<close> as the identifying
  field names. Nothing is sent and the stub is returned.
\<close>

theorem SystemCollection_one_waypoints_selected:
  "SystemCollection_one Index_ts (Some ''X1-AB12'')
      \<lparr>fieldNodes = [\<lparr>selections = [''waypoints'']\<rparr>]\<rparr> (fresh_world [ok_system])
     = (Return (JObj [(''symbol'', JStr ''X1-AB12'')]), fresh_world [ok_system])
   \<and> SystemCollection_one Part_000 (Some ''X1-AB12'')
      \<lparr>fieldNodes = [\<lparr>selections = [''waypoints'']\<rparr>]\<rparr> (fresh_world [ok_system])
     = (Return (JObj [(''symbol'', JStr ''X1-AB12'')]), fresh_world [ok_system])
   \<and> sent (fresh_world [ok_system]) = []"
  by (simp add: SystemCollection_one_def shouldFetch_def selected_def ret_def json_of_sym_def fresh_world_def)

text \<open>
  Claim C5, amended. The inspector returns true unless every requested field name is
  among the identifying field names it is given. \<^verbatim>\<open>SystemCollection.one\<close> gives it
  \<^verbatim>\<open>symbol\<close> and \<^verbatim>\<open>waypoints\<close>: when the selection holds only these names, the stub
  \<^verbatim>\<open>{ symbol }\<close> is returned and the world is untouched (nothing is sent); when it
  holds any other name, the GET request for the system is sent (once, and once more per
  retry).
\<close>

theorem SystemCollection_one_fetch:
  "shouldFetch info simpleFields = (\<not> (\<forall>name \<in> set (selected info). name \<in> set simpleFields))
   \<and> (set (selected info) \<subseteq> {''symbol'', ''waypoints''} \<longrightarrow>
        SystemCollection_one v symbol info w = (Return (JObj [(''symbol'', json_of_sym symbol)]), w))
   \<and> (\<not> set (selected info) \<subseteq> {''symbol'', ''waypoints''} \<longrightarrow>
        (\<exists>n. sent (snd (SystemCollection_one v symbol info w))
              = sent w @ replicate (Suc n)
                  (build_request GET (''systems/'' @ tpl symbol) None JUndefined w)))"
proof (intro conjI impI)
  show "shouldFetch info simpleFields = (\<not> (\<forall>name \<in> set (selected info). name \<in> set simpleFields))"
    by (auto simp: shouldFetch_def list_ex_iff)
next
  assume "set (selected info) \<subseteq> {''symbol'', ''waypoints''}"
  then have "\<not> shouldFetch info [''symbol'', ''waypoints'']"
    by (simp add: shouldFetch_iff)
  then show "SystemCollection_one v symbol info w = (Return (JObj [(''symbol'', json_of_sym symbol)]), w)"
    by (simp add: SystemCollection_one_def ret_def)
next
  assume "\<not> set (selected info) \<subseteq> {''symbol'', ''waypoints''}"
  then have "shouldFetch info [''symbol'', ''waypoints'']"
    by (simp add: shouldFetch_iff)
  then have "sent (snd (SystemCollection_one v symbol info w))
      = sent (snd (api v GET (''systems/'' @ tpl symbol) None JUndefined 0 w))"
    by (simp add: SystemCollection_one_def await_sent dot_world)
  then show "\<exists>n. sent (snd (SystemCollection_one v symbol info w))
              = sent w @ replicate (Suc n)
                  (build_request GET (''systems/'' @ tpl symbol) None JUndefined w)"
    using api_sent[of v GET "''systems/'' @ tpl symbol" None JUndefined 0 w] by simp
qed

theorem SystemCollection_one_fetch_witness:
  "SystemCollection_one Index_ts (Some ''X1-AB12'')
      \<lparr>fieldNodes = [\<lparr>selections = [''symbol'']\<rparr>]\<rparr> (fresh_world [ok_system])
     = (Return (JObj [(''symbol'', JStr ''X1-AB12'')]), fresh_world [ok_system])
   \<and> (\<exists>n. sent (snd (SystemCollection_one Index_ts (Some ''X1-AB12'')
               \<lparr>fieldNodes = [\<lparr>selections = [''symbol'', ''type'']\<rparr>]\<rparr> (fresh_world [ok_system])))
          = replicate (Suc n)
              \<lparr> req_method = GET, req_path = ''systems/X1-AB12'', req_query = None,
                authorization = None, req_body = JUndefined \<rparr>)"
  using SystemCollection_one_fetch[of "\<lparr>fieldNodes = [\<lparr>selections = [''symbol'']\<rparr>]\<rparr>"
          "[''symbol'', ''waypoints'']" Index_ts "Some ''X1-AB12''" "fresh_world [ok_system]"]
        SystemCollection_one_fetch[of "\<lparr>fieldNodes = [\<lparr>selections = [''symbol'', ''type'']\<rparr>]\<rparr>"
          "[''symbol'', ''waypoints'']" Index_ts "Some ''X1-AB12''" "fresh_world [ok_system]"]
  by (simp add: selected_def json_of_sym_def tpl_def build_request_def fresh_world_def opt_def)

section \<open>\<^verbatim>\<open>configure\<close>\<close>

text \<open>The arguments \<^verbatim>\<open>{ symbol, faction, token, email }\<close> (no \<^verbatim>\<open>email\<close> is read in
  \<^verbatim>\<open>src/unnamed/part_000\<close>).\<close>

record configure_args =
  cfg_symbol :: sym
  cfg_faction :: sym
  cfg_token :: sym
  cfg_email :: sym

text \<open>\<^verbatim>\<open>state.data = d\<close>; \<^verbatim>\<open>delete state.data\<close> is \<open>set_data JUndefined\<close>.\<close>

definition set_data :: "json \<Rightarrow> unit action" where
  "set_data d w = (Return (), w\<lparr>data := d\<rparr>)"

definition register_body :: "source \<Rightarrow> configure_args \<Rightarrow> json" where
  "register_body v a =
     (case v of
        Index_ts \<Rightarrow> JObj [(''symbol'', json_of_sym (cfg_symbol a)),
                          (''faction'', json_of_sym (cfg_faction a)),
                          (''email'', json_of_sym (cfg_email a))]
      | Part_000 \<Rightarrow> JObj [(''symbol'', json_of_sym (cfg_symbol a)),
                          (''faction'', json_of_sym (cfg_faction a))])"

text \<open>
  \<^verbatim>\<open>src/index.ts\<close>: \<^verbatim>\<open>if (token) ... else if (symbol && faction) ... else throw\<close>;
  \<^verbatim>\<open>src/unnamed/part_000\<close>: \<^verbatim>\<open>if (token) ... else ...\<close>, with no test on the second
  branch.
\<close>

definition configure :: "source \<Rightarrow> configure_args \<Rightarrow> unit action" where
  "configure v a =
     (if truthy_sym (cfg_token a)
      then set_data (JObj [(''token'', json_of_sym (cfg_token a))])
      else if (case v of
                 Index_ts \<Rightarrow> truthy_sym (cfg_symbol a) \<and> truthy_sym (cfg_faction a)
               | Part_000 \<Rightarrow> True)
      then await (set_data JUndefined) (\<lambda>u.
           await (api v POST ''register'' (Some []) (register_body v a) 0) (\<lambda>res.
           await (dot res ''data'') set_data))
      else throw (Error ''Must provide token or symbol and faction''))"

section \<open>\<^verbatim>\<open>Ship.cooldown\<close>\<close>

text \<open>
  \<^verbatim>\<open>const { symbol } = self.$argsAt(root.ships.one);\<close>
  \<^verbatim>\<open>const res = await api("GET", `my/ships/${symbol}/cooldown`, {}, {});\<close>
  \<^verbatim>\<open>return res?.data?.remainingSeconds ?? 0;\<close>
\<close>

definition Ship_cooldown :: "source \<Rightarrow> gref \<Rightarrow> json action" where
  "Ship_cooldown v self =
     await (dot_symbol (argsAt_ships_one self)) (\<lambda>symbol.
     await (api v GET (''my/ships/'' @ tpl symbol @ ''/cooldown'') (Some []) (JObj []) 0) (\<lambda>res.
       ret (coalesce (opt (opt res ''data'') ''remainingSeconds'') (JNum 0))))"

section \<open>Facts about \<^verbatim>\<open>configure\<close>\<close>

text \<open>The register request: a POST to \<^verbatim>\<open>register?\<close> with no Authorization header.\<close>

definition register_request :: "source \<Rightarrow> configure_args \<Rightarrow> request" where
  "register_request v a =
     \<lparr> req_method = POST, req_path = ''register'', req_query = Some [],
       authorization = None, req_body = register_body v a \<rparr>"

lemma build_register_request:
  "build_request POST ''register'' (Some []) (register_body v a) (w\<lparr>data := JUndefined\<rparr>)
     = register_request v a"
  by (simp add: build_request_def register_request_def opt_def clean_query_def)

lemma configure_register:
  assumes "\<not> truthy_sym (cfg_token a)"
    and "v = Part_000 \<or> (truthy_sym (cfg_symbol a) \<and> truthy_sym (cfg_faction a))"
  shows "configure v a w =
     await (api v POST ''register'' (Some []) (register_body v a) 0)
       (\<lambda>res. await (dot res ''data'') set_data) (w\<lparr>data := JUndefined\<rparr>)"
  using assms by (cases v) (auto simp: configure_def await_def set_data_def)

lemma configure_register_sent:
  assumes "\<not> truthy_sym (cfg_token a)"
    and "v = Part_000 \<or> (truthy_sym (cfg_symbol a) \<and> truthy_sym (cfg_faction a))"
  shows "\<exists>n. sent (snd (configure v a w)) = sent w @ replicate (Suc n) (register_request v a)"
proof -
  have "sent (snd (configure v a w))
      = sent (snd (api v POST ''register'' (Some []) (register_body v a) 0 (w\<lparr>data := JUndefined\<rparr>)))"
    unfolding configure_register[OF assms]
    by (rule await_sent) (auto simp: await_def dot_def throw_def ret_def set_data_def)
  then show ?thesis
    using api_sent[of v POST "''register''" "Some []" "register_body v a" 0 "w\<lparr>data := JUndefined\<rparr>"]
    by (simp add: build_register_request)
qed

lemma configure_register_failed:
  assumes "\<not> truthy_sym (cfg_token a)"
    and "v = Part_000 \<or> (truthy_sym (cfg_symbol a) \<and> truthy_sym (cfg_faction a))"
    and "fst (configure v a w) \<noteq> Return ()"
  shows "data (snd (configure v a w)) = JUndefined"
proof -
  have d: "data (snd (api v POST ''register'' (Some []) (register_body v a) 0 (w\<lparr>data := JUndefined\<rparr>))) = JUndefined"
    using api_frame[of v POST "''register''" "Some []" "register_body v a" 0 "w\<lparr>data := JUndefined\<rparr>"] by simp
  show ?thesis
    using assms(3) d unfolding configure_register[OF assms(1,2)]
    by (auto simp: await_def dot_def throw_def ret_def set_data_def split: prod.splits outcome.splits if_splits)
qed

lemma configure_register_stored:
  assumes "\<not> truthy_sym (cfg_token a)"
    and "v = Part_000 \<or> (truthy_sym (cfg_symbol a) \<and> truthy_sym (cfg_faction a))"
    and "api v POST ''register'' (Some []) (register_body v a) 0 (w\<lparr>data := JUndefined\<rparr>) = (Return res, w')"
    and "\<not> nullish res"
  shows "configure v a w = (Return (), w'\<lparr>data := field res ''data''\<rparr>)"
  using assms(3,4) unfolding configure_register[OF assms(1,2)]
  by (simp add: await_def dot_def ret_def set_data_def)

lemma configure_token:
  assumes "truthy_sym (cfg_token a)"
  shows "configure v a w = (Return (), w\<lparr>data := JObj [(''token'', json_of_sym (cfg_token a))]\<rparr>)"
  using assms by (simp add: configure_def set_data_def)

lemma build_request_token:
  assumes "truthy_sym t"
  shows "authorization (build_request m path query body (w\<lparr>data := JObj [(''token'', json_of_sym t)]\<rparr>))
     = Some (json_of_sym t)"
  using assms by (cases t) (auto simp: build_request_def opt_def json_of_sym_def truthy_sym_def)

lemma configure_neither:
  assumes "\<not> truthy_sym (cfg_token a)" and "\<not> (truthy_sym (cfg_symbol a) \<and> truthy_sym (cfg_faction a))"
  shows "configure Index_ts a w = (Throw (Error ''Must provide token or symbol and faction''), w)"
  using assms by (auto simp: configure_def throw_def)

text \<open>Example responses and worlds.\<close>

definition unprocessable :: response where
  \<open>unprocessable =
     \<lparr> status = 422, text_body = ''{"error":{"message":"The symbol field is required."}}'',
       json_body = Some (JObj [(''error'',
                     JObj [(''message'', JStr ''The symbol field is required.'')])]) \<rparr>\<close>

definition registered :: response where
  \<open>registered =
     \<lparr> status = 201, text_body = ''{"data":{"token":"NEW"}}'',
       json_body = Some (JObj [(''data'', JObj [(''token'', JStr ''NEW'')])]) \<rparr>\<close>

definition no_args :: configure_args where
  "no_args = \<lparr> cfg_symbol = None, cfg_faction = None, cfg_token = None, cfg_email = None \<rparr>"

definition token_args :: configure_args where
  "token_args = \<lparr> cfg_symbol = None, cfg_faction = None, cfg_token = Some ''OLD'', cfg_email = None \<rparr>"

definition register_args :: configure_args where
  "register_args =
     \<lparr> cfg_symbol = Some ''AGENT'', cfg_faction = Some ''COSMIC'', cfg_token = None,
       cfg_email = None \<rparr>"

text \<open>A process that holds the token \<^verbatim>\<open>OLD\<close>.\<close>

definition old_token_world :: "response list \<Rightarrow> world" where
  "old_token_world rs =
     \<lparr> data = JObj [(''token'', JStr ''OLD'')], cachedMarkets = (\<lambda>k. JUndefined),
       cachedJumpGates = (\<lambda>k. JUndefined), script = rs, sent = [], scheduled = [] \<rparr>"

text \<open>
  Claim C6, as the claim states it, fails in \<^verbatim>\<open>src/unnamed/part_000\<close>: called with
  neither a token nor a callsign and faction, \<^verbatim>\<open>configure\<close> does not fail fast. It
  sends the register request (with an empty body once serialised), and the error it
  throws is the server's.
\<close>

theorem configure_part_000_without_arguments_registers:
  "fst (configure Part_000 no_args (fresh_world [unprocessable]))
     = Throw (ApiError 422 (text_body unprocessable))
   \<and> sent (snd (configure Part_000 no_args (fresh_world [unprocessable])))
     = [\<lparr> req_method = POST, req_path = ''register'', req_query = Some [],
           authorization = None,
           req_body = JObj [(''symbol'', JUndefined), (''faction'', JUndefined)] \<rparr>]"
  by (simp add: configure_def no_args_def truthy_sym_def await_def set_data_def api.simps
        fetch_Cons fresh_world_def unprocessable_def throttled_def build_request_def
        register_body_def json_of_sym_def opt_def clean_query_def)

text \<open>
  Claim C6, amended. (1) With a token (a non-empty string), the token is stored, nothing
  is sent, and the requests of the next \<^verbatim>\<open>api\<close> call carry
  \<^verbatim>\<open>Authorization: Bearer <token>\<close>. (2) Without a token and with callsign and faction
  (in \<^verbatim>\<open>src/unnamed/part_000\<close>: without a token, whatever else is given), the register
  request is sent, and when the call returns a response its \<^verbatim>\<open>data\<close> is stored.
  (3) In \<^verbatim>\<open>src/index.ts\<close>, with neither a token nor callsign and faction,
  \<^verbatim>\<open>configure\<close> throws and leaves the world untouched (nothing is sent).
\<close>

theorem configure_stores_registers_or_fails:
  "(truthy_sym (cfg_token a) \<longrightarrow>
      configure v a w = (Return (), w\<lparr>data := JObj [(''token'', json_of_sym (cfg_token a))]\<rparr>)
      \<and> (\<exists>n. sent (snd (api v m path query body retry (snd (configure v a w))))
              = sent w @ replicate (Suc n) (build_request m path query body (snd (configure v a w))))
      \<and> authorization (build_request m path query body (snd (configure v a w)))
          = Some (json_of_sym (cfg_token a)))
   \<and> (\<not> truthy_sym (cfg_token a)
        \<and> (v = Part_000 \<or> (truthy_sym (cfg_symbol a) \<and> truthy_sym (cfg_faction a))) \<longrightarrow>
      (\<exists>n. sent (snd (configure v a w)) = sent w @ replicate (Suc n) (register_request v a))
      \<and> (api v POST ''register'' (Some []) (register_body v a) 0 (w\<lparr>data := JUndefined\<rparr>)
            = (Return res, w') \<and> \<not> nullish res \<longrightarrow>
          configure v a w = (Return (), w'\<lparr>data := field res ''data''\<rparr>)))
   \<and> (\<not> truthy_sym (cfg_token a)
        \<and> \<not> (truthy_sym (cfg_symbol a) \<and> truthy_sym (cfg_faction a)) \<longrightarrow>
      configure Index_ts a w = (Throw (Error ''Must provide token or symbol and faction''), w))"
proof (intro conjI impI)
  assume t: "truthy_sym (cfg_token a)"
  show c: "configure v a w = (Return (), w\<lparr>data := JObj [(''token'', json_of_sym (cfg_token a))]\<rparr>)"
    using t by (rule configure_token)
  show "\<exists>n. sent (snd (api v m path query body retry (snd (configure v a w))))
              = sent w @ replicate (Suc n) (build_request m path query body (snd (configure v a w)))"
    using api_sent[of v m path query body retry "snd (configure v a w)"] by (simp add: c)
  show "authorization (build_request m path query body (snd (configure v a w)))
          = Some (json_of_sym (cfg_token a))"
    using build_request_token[OF t] by (simp add: c)
next
  assume r: "\<not> truthy_sym (cfg_token a)
        \<and> (v = Part_000 \<or> (truthy_sym (cfg_symbol a) \<and> truthy_sym (cfg_faction a)))"
  then show "\<exists>n. sent (snd (configure v a w)) = sent w @ replicate (Suc n) (register_request v a)"
    by (intro configure_register_sent) simp_all
  assume "api v POST ''register'' (Some []) (register_body v a) 0 (w\<lparr>data := JUndefined\<rparr>)
            = (Return res, w') \<and> \<not> nullish res"
  with r show "configure v a w = (Return (), w'\<lparr>data := field res ''data''\<rparr>)"
    by (intro configure_register_stored) simp_all
next
  assume "\<not> truthy_sym (cfg_token a)
        \<and> \<not> (truthy_sym (cfg_symbol a) \<and> truthy_sym (cfg_faction a))"
  then show "configure Index_ts a w
      = (Throw (Error ''Must provide token or symbol and faction''), w)"
    by (intro configure_neither) simp_all
qed

theorem configure_stores_registers_or_fails_witness:
  "configure Index_ts token_args (fresh_world [])
     = (Return (), (fresh_world [])\<lparr>data := JObj [(''token'', JStr ''OLD'')]\<rparr>)
   \<and> authorization (build_request GET ''my/agent'' None JUndefined
        (snd (configure Index_ts token_args (fresh_world [])))) = Some (JStr ''OLD'')
   \<and> configure Index_ts register_args (old_token_world [registered])
     = (Return (), \<lparr> data = JObj [(''token'', JStr ''NEW'')], cachedMarkets = (\<lambda>k. JUndefined),
          cachedJumpGates = (\<lambda>k. JUndefined), script = [],
          sent = [register_request Index_ts register_args], scheduled = [] \<rparr>)
   \<and> configure Index_ts no_args (fresh_world [unprocessable])
     = (Throw (Error ''Must provide token or symbol and faction''), fresh_world [unprocessable])"
  using configure_stores_registers_or_fails[where a = token_args and v = Index_ts
          and w = "fresh_world []" and m = GET and path = "''my/agent''" and query = None
          and body = JUndefined and retry = 0]
        configure_stores_registers_or_fails[where a = register_args and v = Index_ts
          and w = "old_token_world [registered]"
          and res = "JObj [(''data'', JObj [(''token'', JStr ''NEW'')])]"
          and w' = "\<lparr> data = JUndefined, cachedMarkets = (\<lambda>k. JUndefined),
             cachedJumpGates = (\<lambda>k. JUndefined), script = [],
             sent = [register_request Index_ts register_args], scheduled = [] \<rparr>"]
        configure_stores_registers_or_fails[where a = no_args and v = Index_ts
          and w = "fresh_world [unprocessable]"]
  by (simp add: token_args_def register_args_def no_args_def truthy_sym_def json_of_sym_def
        old_token_world_def fresh_world_def registered_def api.simps fetch_Cons throttled_def
        build_request_def opt_def clean_query_def register_request_def)

text \<open>
  Claim C9. Called with a callsign and a faction and no token, \<^verbatim>\<open>configure\<close> deletes
  the stored credential before it issues the register call: every request of that call
  goes out without an Authorization header, whatever was stored before. And when
  \<^verbatim>\<open>configure\<close> does not return normally (the register call throws, or is still
  waiting), the process is left with no credential: \<^verbatim>\<open>state.data\<close> is undefined even
  if a token was stored before the call.
\<close>

theorem configure_register_is_not_atomic:
  assumes "\<not> truthy_sym (cfg_token a)"
    and "truthy_sym (cfg_symbol a)"
    and "truthy_sym (cfg_faction a)"
  shows "(\<exists>n. sent (snd (configure v a w))
             = sent w @ replicate (Suc n)
                 \<lparr> req_method = POST, req_path = ''register'', req_query = Some [],
                   authorization = None, req_body = register_body v a \<rparr>)
       \<and> (fst (configure v a w) \<noteq> Return () \<longrightarrow> data (snd (configure v a w)) = JUndefined)"
proof (intro conjI impI)
  have r: "v = Part_000 \<or> (truthy_sym (cfg_symbol a) \<and> truthy_sym (cfg_faction a))"
    using assms(2,3) by simp
  show "\<exists>n. sent (snd (configure v a w))
             = sent w @ replicate (Suc n)
                 \<lparr> req_method = POST, req_path = ''register'', req_query = Some [],
                   authorization = None, req_body = register_body v a \<rparr>"
    using configure_register_sent[OF assms(1) r, of w] by (simp add: register_request_def)
  assume "fst (configure v a w) \<noteq> Return ()"
  with assms(1) r show "data (snd (configure v a w)) = JUndefined"
    by (rule configure_register_failed)
qed

theorem configure_register_is_not_atomic_witness:
  "data (old_token_world [unprocessable]) = JObj [(''token'', JStr ''OLD'')]
   \<and> configure Index_ts register_args (old_token_world [unprocessable])
     = (Throw (ApiError 422 (text_body unprocessable)),
        \<lparr> data = JUndefined, cachedMarkets = (\<lambda>k. JUndefined),
          cachedJumpGates = (\<lambda>k. JUndefined), script = [],
          sent = [\<lparr> req_method = POST, req_path = ''register'', req_query = Some [],
                    authorization = None,
                    req_body = register_body Index_ts register_args \<rparr>],
          scheduled = [] \<rparr>)"
  using configure_register_is_not_atomic[where a = register_args and v = Index_ts
          and w = "old_token_world [unprocessable]"]
  by (simp add: configure_def register_args_def truthy_sym_def old_token_world_def
        unprocessable_def await_def set_data_def api.simps fetch_Cons throttled_def
        build_request_def opt_def clean_query_def)

section \<open>Facts about \<^verbatim>\<open>Ship.cooldown\<close>\<close>

definition no_content :: response where
  "no_content = \<lparr> status = 204, text_body = [], json_body = None \<rparr>"

definition cooling_down :: response where
  \<open>cooling_down =
     \<lparr> status = 200, text_body = ''{"data":{"shipSymbol":"SHIP-1","remainingSeconds":42}}'',
       json_body = Some (JObj [(''data'', JObj [(''shipSymbol'', JStr ''SHIP-1''),
                                                 (''remainingSeconds'', JNum 42)])]) \<rparr>\<close>

text \<open>Status 204 is throttled in neither file: the call returns the empty object.\<close>

lemma api_204:
  assumes "script w = res # rest" and "status res = 204"
  shows "api v m path query body 0 w
     = (Return (JObj []), w\<lparr>script := rest, sent := sent w @ [build_request m path query body w]\<rparr>)"
  using assms by (subst api.simps) (cases v; simp add: fetch_def throttled_def)

text \<open>
  Claim C10. Let \<open>res\<close> be what the \<^verbatim>\<open>api\<close> call of \<^verbatim>\<open>Ship.cooldown\<close> returns.
  When \<^verbatim>\<open>res?.data?.remainingSeconds\<close> is missing (undefined or null), the operation
  returns 0; when \<^verbatim>\<open>res.data.remainingSeconds\<close> is present, it is returned verbatim.
  A 204 response, which \<^verbatim>\<open>api\<close> maps to the empty object, gives 0 and no error. And
  whatever the server does, a returned cooldown is never null or undefined.
\<close>

theorem Ship_cooldown_remainingSeconds:
  assumes "argsAt_ships_one self = Some symbol"
  shows "(api v GET (''my/ships/'' @ tpl symbol @ ''/cooldown'') (Some []) (JObj []) 0 w = (Return res, w')
            \<and> nullish (opt (opt res ''data'') ''remainingSeconds'')
          \<longrightarrow> Ship_cooldown v self w = (Return (JNum 0), w'))
       \<and> (api v GET (''my/ships/'' @ tpl symbol @ ''/cooldown'') (Some []) (JObj []) 0 w = (Return res, w')
            \<and> \<not> nullish (field (field res ''data'') ''remainingSeconds'')
          \<longrightarrow> Ship_cooldown v self w = (Return (field (field res ''data'') ''remainingSeconds''), w'))
       \<and> (script w = r # rest \<and> status r = 204
          \<longrightarrow> fst (Ship_cooldown v self w) = Return (JNum 0))
       \<and> (fst (Ship_cooldown v self w) = Return x \<longrightarrow> \<not> nullish x)"
proof (intro conjI impI)
  assume a: "api v GET (''my/ships/'' @ tpl symbol @ ''/cooldown'') (Some []) (JObj []) 0 w = (Return res, w')
            \<and> nullish (opt (opt res ''data'') ''remainingSeconds'')"
  then show "Ship_cooldown v self w = (Return (JNum 0), w')"
    using assms by (simp add: Ship_cooldown_def dot_symbol_def await_def ret_def coalesce_def)
next
  assume a: "api v GET (''my/ships/'' @ tpl symbol @ ''/cooldown'') (Some []) (JObj []) 0 w = (Return res, w')
            \<and> \<not> nullish (field (field res ''data'') ''remainingSeconds'')"
  then have "field (field res ''data'') ''remainingSeconds'' \<noteq> JUndefined" by auto
  then have d: "\<not> nullish (field res ''data'')" by (rule field_defined_not_nullish)
  then have "field res ''data'' \<noteq> JUndefined" by auto
  then have "\<not> nullish res" by (rule field_defined_not_nullish)
  with d a show "Ship_cooldown v self w = (Return (field (field res ''data'') ''remainingSeconds''), w')"
    using assms by (simp add: Ship_cooldown_def dot_symbol_def await_def ret_def coalesce_def opt_def)
next
  assume "script w = r # rest \<and> status r = 204"
  then show "fst (Ship_cooldown v self w) = Return (JNum 0)"
    using assms api_204[of w r rest v GET "''my/ships/'' @ tpl symbol @ ''/cooldown''" "Some []" "JObj []"]
    by (simp add: Ship_cooldown_def dot_symbol_def await_def ret_def coalesce_def opt_def)
next
  assume "fst (Ship_cooldown v self w) = Return x"
  then show "\<not> nullish x"
    using assms 
    by (auto simp: Ship_cooldown_def dot_symbol_def await_def ret_def coalesce_def split: prod.splits outcome.splits if_splits)
qed

theorem Ship_cooldown_remainingSeconds_witness:
  "Ship_cooldown Index_ts (Ships_one (Some ''SHIP-1'')) (fresh_world [no_content])
     = (Return (JNum 0),
        \<lparr> data = JUndefined, cachedMarkets = (\<lambda>k. JUndefined),
          cachedJumpGates = (\<lambda>k. JUndefined), script = [],
          sent = [\<lparr> req_method = GET, req_path = ''my/ships/SHIP-1/cooldown'',
                    req_query = Some [], authorization = None, req_body = JObj [] \<rparr>],
          scheduled = [] \<rparr>)
   \<and> fst (Ship_cooldown Part_000 (Ships_one (Some ''SHIP-1'')) (fresh_world [cooling_down]))
     = Return (JNum 42)"
  using Ship_cooldown_remainingSeconds[where self = "Ships_one (Some ''SHIP-1'')"
          and symbol = "Some ''SHIP-1''" and v = Index_ts and w = "fresh_world [no_content]"
          and res = "JObj []" and r = no_content and rest = "[]"
          and w' = "\<lparr> data = JUndefined, cachedMarkets = (\<lambda>k. JUndefined),
             cachedJumpGates = (\<lambda>k. JUndefined), script = [],
             sent = [\<lparr> req_method = GET, req_path = ''my/ships/SHIP-1/cooldown'',
                    req_query = Some [], authorization = None, req_body = JObj [] \<rparr>],
             scheduled = [] \<rparr>"]
        Ship_cooldown_remainingSeconds[where self = "Ships_one (Some ''SHIP-1'')"
          and symbol = "Some ''SHIP-1''" and v = Part_000 and w = "fresh_world [cooling_down]"
          and res = "JObj [(''data'', JObj [(''shipSymbol'', JStr ''SHIP-1''),
                                            (''remainingSeconds'', JNum 42)])]"
          and w' = "\<lparr> data = JUndefined, cachedMarkets = (\<lambda>k. JUndefined),
             cachedJumpGates = (\<lambda>k. JUndefined), script = [],
             sent = [\<lparr> req_method = GET, req_path = ''my/ships/SHIP-1/cooldown'',
                    req_query = Some [], authorization = None, req_body = JObj [] \<rparr>],
             scheduled = [] \<rparr>"]
  by (simp add: fresh_world_def no_content_def cooling_down_def api.simps fetch_Cons
        throttled_def build_request_def opt_def clean_query_def tpl_def)

section \<open>Actions with a symbol or a reference\<close>

text \<open>
  What an action hands back: \<^verbatim>\<open>res.data\<close> in \<^verbatim>\<open>src/index.ts\<close>, the text
  \<^verbatim>\<open>JSON.stringify(res.data)\<close> in \<^verbatim>\<open>src/unnamed/part_000\<close> (\<open>Stringified d\<close> stands
  for the text of \<open>d\<close>).
\<close>

datatype answer = Plain json | Stringified json

definition answer_of :: "source \<Rightarrow> json \<Rightarrow> answer" where
  "answer_of v d = (case v of Index_ts \<Rightarrow> Plain d | Part_000 \<Rightarrow> Stringified d)"

definition json_of_ref :: "gref option \<Rightarrow> json" where
  "json_of_ref r = (case r of None \<Rightarrow> JUndefined | Some x \<Rightarrow> JRef x)"

text \<open>The arguments of \<^verbatim>\<open>Contract.deliver\<close>; the whole object is the request body.\<close>

record deliver_args =
  shipSymbol :: sym
  ship :: "gref option"
  tradeSymbol :: sym
  units :: "int option"

definition deliver_body :: "deliver_args \<Rightarrow> json" where
  "deliver_body a =
     JObj [(''shipSymbol'', json_of_sym (shipSymbol a)), (''ship'', json_of_ref (ship a)),
           (''tradeSymbol'', json_of_sym (tradeSymbol a)), (''units'', json_of_int (units a))]"

definition Contract_deliver :: "source \<Rightarrow> deliver_args \<Rightarrow> gref \<Rightarrow> answer action" where
  "Contract_deliver v args self =
     (if truthy_sym (shipSymbol args) \<and> ship args \<noteq> None
      then throw (Error ''Cannot specify both shipSymbol and ship'')
      else await (case ship args of
                    None \<Rightarrow> ret args
                  | Some r \<Rightarrow> await (dot_symbol (argsAt_ships_one r)) (\<lambda>s.
                               ret (args\<lparr>shipSymbol := s\<rparr>))) (\<lambda>args.
           await (dot_symbol (argsAt_contracts_one self)) (\<lambda>id'.
           await (api v POST (''my/contracts/'' @ tpl id' @ ''/deliver'') (Some [])
                    (deliver_body args) 0) (\<lambda>res.
           await (dot res ''data'') (\<lambda>d.
             ret (answer_of v d))))))"

text \<open>
  The arguments \<^verbatim>\<open>{ waypoint, waypointSymbol }\<close> of \<^verbatim>\<open>Ship.navigate\<close>, and with
  \<^verbatim>\<open>shipType\<close> those of \<^verbatim>\<open>ShipCollection.purchase\<close>.
\<close>

record waypoint_args =
  waypoint :: "gref option"
  waypointSymbol :: sym

record purchase_args = waypoint_args +
  shipType :: sym

text \<open>
  \<^verbatim>\<open>if (waypoint) { waypointSymbol = waypoint.$argsAt(root.systems.one.waypoints.one).symbol; }\<close>
\<close>

definition resolve_waypoint :: "'a waypoint_args_scheme \<Rightarrow> sym action" where
  "resolve_waypoint args =
     (case waypoint args of
        None \<Rightarrow> ret (waypointSymbol args)
      | Some r \<Rightarrow> dot_symbol (argsAt_waypoints_one r))"

definition ShipCollection_purchase :: "source \<Rightarrow> purchase_args \<Rightarrow> answer action" where
  "ShipCollection_purchase v args =
     (if waypoint args \<noteq> None \<and> truthy_sym (waypointSymbol args)
      then throw (Error ''Please provide waypoint or waypointSymbol but not both.'')
      else await (resolve_waypoint args) (\<lambda>waypointSymbol'.
           await (api v POST ''my/ships'' (Some [])
                    (JObj [(''shipType'', json_of_sym (shipType args)),
                           (''waypointSymbol'', json_of_sym waypointSymbol')]) 0) (\<lambda>res.
           await (dot res ''data'') (\<lambda>d.
             ret (answer_of v d)))))"

text \<open>
  \<^verbatim>\<open>self.handleArrival({ waypointSymbol }).$invokeAt(new Date(arrival))\<close> sets a timer.
\<close>

definition invokeAt :: "json \<Rightarrow> sym \<Rightarrow> unit action" where
  "invokeAt arrival destination w =
     (Return (), w\<lparr>scheduled := scheduled w @ [(arrival, destination)]\<rparr>)"

definition Ship_navigate :: "source \<Rightarrow> waypoint_args \<Rightarrow> gref \<Rightarrow> answer action" where
  "Ship_navigate v args self =
     (if waypoint args \<noteq> None \<and> truthy_sym (waypointSymbol args)
      then throw (Error ''Please provide waypoint or waypointSymbol but not both.'')
      else await (resolve_waypoint args) (\<lambda>waypointSymbol'.
           await (dot_symbol (argsAt_ships_one self)) (\<lambda>symbol.
           await (api v POST (''my/ships/'' @ tpl symbol @ ''/navigate'') (Some [])
                    (JObj [(''waypointSymbol'', json_of_sym waypointSymbol')]) 0) (\<lambda>res.
           await (dot res ''data'') (\<lambda>d.
           await (if truthy (opt (opt (opt d ''nav'') ''route'') ''arrival'')
                  then invokeAt (opt (opt (opt d ''nav'') ''route'') ''arrival'') waypointSymbol'
                  else ret ()) (\<lambda>u.
             ret (answer_of v d)))))))"

subsection \<open>The requests of an action called with the reference alone\<close>

lemma Contract_deliver_by_ref:
  assumes "\<not> truthy_sym (shipSymbol a)" and "ship a = Some (Ships_one s)"
    and "self = Contracts_one cid"
  shows "sent (snd (Contract_deliver v a self w))
       = sent (snd (api v POST (''my/contracts/'' @ tpl cid @ ''/deliver'') (Some [])
                  (deliver_body (a\<lparr>shipSymbol := s\<rparr>)) 0 w))"
proof -
  have "Contract_deliver v a self w =
     await (api v POST (''my/contracts/'' @ tpl cid @ ''/deliver'') (Some [])
                    (deliver_body (a\<lparr>shipSymbol := s\<rparr>)) 0) (\<lambda>res.
           await (dot res ''data'') (\<lambda>d. ret (answer_of v d))) w"
    using assms by (simp add: Contract_deliver_def await_def dot_symbol_def ret_def)
  then show ?thesis
    by (simp only:) (rule await_sent, simp add: await_def dot_def throw_def ret_def)
qed

lemma ShipCollection_purchase_by_ref:
  assumes "\<not> truthy_sym (waypointSymbol a)" and "waypoint a = Some (Waypoints_one sys wp)"
  shows "sent (snd (ShipCollection_purchase v a w))
       = sent (snd (api v POST ''my/ships'' (Some [])
                    (JObj [(''shipType'', json_of_sym (shipType a)),
                           (''waypointSymbol'', json_of_sym wp)]) 0 w))"
proof -
  have "ShipCollection_purchase v a w =
     await (api v POST ''my/ships'' (Some [])
                    (JObj [(''shipType'', json_of_sym (shipType a)),
                           (''waypointSymbol'', json_of_sym wp)]) 0) (\<lambda>res.
           await (dot res ''data'') (\<lambda>d. ret (answer_of v d))) w"
    using assms by (simp add: ShipCollection_purchase_def resolve_waypoint_def await_def dot_symbol_def ret_def)
  then show ?thesis
    by (simp only:) (rule await_sent, simp add: await_def dot_def throw_def ret_def)
qed

lemma Ship_navigate_by_ref:
  assumes "\<not> truthy_sym (waypointSymbol a)" and "waypoint a = Some (Waypoints_one sys wp)"
    and "self = Ships_one symbol"
  shows "sent (snd (Ship_navigate v a self w))
       = sent (snd (api v POST (''my/ships/'' @ tpl symbol @ ''/navigate'') (Some [])
                    (JObj [(''waypointSymbol'', json_of_sym wp)]) 0 w))"
proof -
  have "Ship_navigate v a self w =
     await (api v POST (''my/ships/'' @ tpl symbol @ ''/navigate'') (Some [])
                    (JObj [(''waypointSymbol'', json_of_sym wp)]) 0) (\<lambda>res.
           await (dot res ''data'') (\<lambda>d.
           await (if truthy (opt (opt (opt d ''nav'') ''route'') ''arrival'')
                  then invokeAt (opt (opt (opt d ''nav'') ''route'') ''arrival'') wp
                  else ret ()) (\<lambda>u.
             ret (answer_of v d)))) w"
    using assms by (simp add: Ship_navigate_def resolve_waypoint_def await_def dot_symbol_def ret_def)
  then show ?thesis
    by (simp only:) (rule await_sent, simp add: await_def dot_def throw_def ret_def invokeAt_def)
qed

text \<open>Example arguments and a response.\<close>

definition delivered :: response where
  \<open>delivered =
     \<lparr> status = 200, text_body = ''{"data":{"contract":{"id":"c1"}}}'',
       json_body = Some (JObj [(''data'', JObj [(''contract'', JObj [(''id'', JStr ''c1'')])])]) \<rparr>\<close>

definition empty_symbol_and_ship :: deliver_args where
  "empty_symbol_and_ship =
     \<lparr> shipSymbol = Some [], ship = Some (Ships_one (Some ''SHIP-1'')),
       tradeSymbol = Some ''IRON_ORE'', units = Some 10 \<rparr>"

definition ship_only :: deliver_args where
  "ship_only =
     \<lparr> shipSymbol = None, ship = Some (Ships_one (Some ''SHIP-1'')),
       tradeSymbol = Some ''IRON_ORE'', units = Some 10 \<rparr>"

definition symbol_and_ship :: deliver_args where
  "symbol_and_ship =
     \<lparr> shipSymbol = Some ''SHIP-2'', ship = Some (Ships_one (Some ''SHIP-1'')),
       tradeSymbol = Some ''IRON_ORE'', units = Some 10 \<rparr>"

definition waypoint_only :: waypoint_args where
  "waypoint_only =
     \<lparr> waypoint = Some (Waypoints_one (Some ''X1-AB12'') (Some ''X1-AB12-XYZ'')),
       waypointSymbol = None \<rparr>"

definition waypoint_and_symbol :: waypoint_args where
  "waypoint_and_symbol =
     \<lparr> waypoint = Some (Waypoints_one (Some ''X1-AB12'') (Some ''X1-AB12-XYZ'')),
       waypointSymbol = Some ''X1-AB12-ABC'' \<rparr>"

definition probe_at_waypoint :: purchase_args where
  "probe_at_waypoint =
     \<lparr> waypoint = Some (Waypoints_one (Some ''X1-AB12'') (Some ''X1-AB12-XYZ'')),
       waypointSymbol = None, shipType = Some ''SHIP_PROBE'' \<rparr>"

definition probe_at_waypoint_and_symbol :: purchase_args where
  "probe_at_waypoint_and_symbol =
     \<lparr> waypoint = Some (Waypoints_one (Some ''X1-AB12'') (Some ''X1-AB12-XYZ'')),
       waypointSymbol = Some ''X1-AB12-ABC'', shipType = Some ''SHIP_PROBE'' \<rparr>"

text \<open>
  Claim C8, as the claim states it, fails: the tests are \<^verbatim>\<open>args.shipSymbol && args.ship\<close>
  and \<^verbatim>\<open>waypoint && waypointSymbol\<close>, so a symbol that is the empty string, which is
  not null, does not make the action throw. \<^verbatim>\<open>Contract.deliver\<close> called with
  \<^verbatim>\<open>shipSymbol: ""\<close> and a ship reference overwrites the symbol with the reference's
  and sends the request.
\<close>

theorem Contract_deliver_empty_shipSymbol_and_ship:
  "shipSymbol empty_symbol_and_ship = Some []
   \<and> ship empty_symbol_and_ship = Some (Ships_one (Some ''SHIP-1''))
   \<and> Contract_deliver Index_ts empty_symbol_and_ship (Contracts_one (Some ''c1''))
        (fresh_world [delivered])
     = (Return (Plain (JObj [(''contract'', JObj [(''id'', JStr ''c1'')])])),
        \<lparr> data = JUndefined, cachedMarkets = (\<lambda>k. JUndefined),
          cachedJumpGates = (\<lambda>k. JUndefined), script = [],
          sent = [\<lparr> req_method = POST, req_path = ''my/contracts/c1/deliver'',
                    req_query = Some [], authorization = None,
                    req_body = JObj [(''shipSymbol'', JStr ''SHIP-1''),
                                     (''ship'', JRef (Ships_one (Some ''SHIP-1''))),
                                     (''tradeSymbol'', JStr ''IRON_ORE''),
                                     (''units'', JNum 10)] \<rparr>],
          scheduled = [] \<rparr>)"
  by (simp add: Contract_deliver_def empty_symbol_and_ship_def truthy_sym_def await_def
        dot_symbol_def ret_def api.simps fetch_Cons fresh_world_def delivered_def throttled_def
        build_request_def opt_def clean_query_def deliver_body_def json_of_sym_def
        json_of_ref_def json_of_int_def tpl_def dot_def answer_of_def)

text \<open>
  Claim C8, amended. \<^verbatim>\<open>Contract.deliver\<close> called with a truthy \<^verbatim>\<open>shipSymbol\<close> (a
  non-empty string) and a \<^verbatim>\<open>ship\<close>, and \<^verbatim>\<open>ShipCollection.purchase\<close> and
  \<^verbatim>\<open>Ship.navigate\<close> called with a \<^verbatim>\<open>waypoint\<close> and a truthy \<^verbatim>\<open>waypointSymbol\<close>,
  throw their error and leave the world untouched (nothing is sent). Called with the
  reference alone (the symbol absent or empty), each action makes one \<^verbatim>\<open>api\<close> call
  whose body carries the symbol of the reference: its requests are that one request,
  sent once and once more per retry, and exactly once when the first response is not
  throttled.
\<close>

theorem exclusive_arguments:
  "(truthy_sym (shipSymbol d) \<and> ship d \<noteq> None \<longrightarrow>
      Contract_deliver v d self w
        = (Throw (Error ''Cannot specify both shipSymbol and ship''), w))
   \<and> (waypoint p \<noteq> None \<and> truthy_sym (waypointSymbol p) \<longrightarrow>
      ShipCollection_purchase v p w
        = (Throw (Error ''Please provide waypoint or waypointSymbol but not both.''), w))
   \<and> (waypoint g \<noteq> None \<and> truthy_sym (waypointSymbol g) \<longrightarrow>
      Ship_navigate v g self w
        = (Throw (Error ''Please provide waypoint or waypointSymbol but not both.''), w))
   \<and> (\<not> truthy_sym (shipSymbol d) \<and> ship d = Some (Ships_one s)
        \<and> self = Contracts_one cid \<longrightarrow>
      (\<exists>k. sent (snd (Contract_deliver v d self w))
         = sent w @ replicate (Suc k)
             (build_request POST (''my/contracts/'' @ tpl cid @ ''/deliver'') (Some [])
                (deliver_body (d\<lparr>shipSymbol := s\<rparr>)) w))
      \<and> (script w = r # rest \<and> \<not> throttled v (status r) 0 \<longrightarrow>
           sent (snd (Contract_deliver v d self w))
         = sent w @ [build_request POST (''my/contracts/'' @ tpl cid @ ''/deliver'') (Some [])
                (deliver_body (d\<lparr>shipSymbol := s\<rparr>)) w]))
   \<and> (\<not> truthy_sym (waypointSymbol p) \<and> waypoint p = Some (Waypoints_one sys wp) \<longrightarrow>
      (\<exists>k. sent (snd (ShipCollection_purchase v p w))
         = sent w @ replicate (Suc k)
             (build_request POST ''my/ships'' (Some [])
                (JObj [(''shipType'', json_of_sym (shipType p)),
                       (''waypointSymbol'', json_of_sym wp)]) w))
      \<and> (script w = r # rest \<and> \<not> throttled v (status r) 0 \<longrightarrow>
           sent (snd (ShipCollection_purchase v p w))
         = sent w @ [build_request POST ''my/ships'' (Some [])
                (JObj [(''shipType'', json_of_sym (shipType p)),
                       (''waypointSymbol'', json_of_sym wp)]) w]))
   \<and> (\<not> truthy_sym (waypointSymbol g) \<and> waypoint g = Some (Waypoints_one sys wp)
        \<and> self = Ships_one symbol \<longrightarrow>
      (\<exists>k. sent (snd (Ship_navigate v g self w))
         = sent w @ replicate (Suc k)
             (build_request POST (''my/ships/'' @ tpl symbol @ ''/navigate'') (Some [])
                (JObj [(''waypointSymbol'', json_of_sym wp)]) w))
      \<and> (script w = r # rest \<and> \<not> throttled v (status r) 0 \<longrightarrow>
           sent (snd (Ship_navigate v g self w))
         = sent w @ [build_request POST (''my/ships/'' @ tpl symbol @ ''/navigate'') (Some [])
                (JObj [(''waypointSymbol'', json_of_sym wp)]) w]))"
proof (intro conjI impI)
  assume "truthy_sym (shipSymbol d) \<and> ship d \<noteq> None"
  then show "Contract_deliver v d self w
        = (Throw (Error ''Cannot specify both shipSymbol and ship''), w)"
    by (simp add: Contract_deliver_def throw_def)
next
  assume "waypoint p \<noteq> None \<and> truthy_sym (waypointSymbol p)"
  then show "ShipCollection_purchase v p w
        = (Throw (Error ''Please provide waypoint or waypointSymbol but not both.''), w)"
    by (simp add: ShipCollection_purchase_def throw_def)
next
  assume "waypoint g \<noteq> None \<and> truthy_sym (waypointSymbol g)"
  then show "Ship_navigate v g self w
        = (Throw (Error ''Please provide waypoint or waypointSymbol but not both.''), w)"
    by (simp add: Ship_navigate_def throw_def)
next
  assume a: "\<not> truthy_sym (shipSymbol d) \<and> ship d = Some (Ships_one s)
        \<and> self = Contracts_one cid"
  then have e: "sent (snd (Contract_deliver v d self w))
       = sent (snd (api v POST (''my/contracts/'' @ tpl cid @ ''/deliver'') (Some [])
                  (deliver_body (d\<lparr>shipSymbol := s\<rparr>)) 0 w))"
    by (intro Contract_deliver_by_ref) simp_all
  show "\<exists>k. sent (snd (Contract_deliver v d self w))
         = sent w @ replicate (Suc k)
             (build_request POST (''my/contracts/'' @ tpl cid @ ''/deliver'') (Some [])
                (deliver_body (d\<lparr>shipSymbol := s\<rparr>)) w)"
    unfolding e by (rule api_sent)
  assume "script w = r # rest \<and> \<not> throttled v (status r) 0"
  then show "sent (snd (Contract_deliver v d self w))
         = sent w @ [build_request POST (''my/contracts/'' @ tpl cid @ ''/deliver'') (Some [])
                (deliver_body (d\<lparr>shipSymbol := s\<rparr>)) w]"
    unfolding e by (intro api_once(1)[of w r rest]) simp_all
next
  assume a: "\<not> truthy_sym (waypointSymbol p) \<and> waypoint p = Some (Waypoints_one sys wp)"
  then have e: "sent (snd (ShipCollection_purchase v p w))
       = sent (snd (api v POST ''my/ships'' (Some [])
                    (JObj [(''shipType'', json_of_sym (shipType p)),
                           (''waypointSymbol'', json_of_sym wp)]) 0 w))"
    by (intro ShipCollection_purchase_by_ref[of p sys]) simp_all
  show "\<exists>k. sent (snd (ShipCollection_purchase v p w))
         = sent w @ replicate (Suc k)
             (build_request POST ''my/ships'' (Some [])
                (JObj [(''shipType'', json_of_sym (shipType p)),
                       (''waypointSymbol'', json_of_sym wp)]) w)"
    unfolding e by (rule api_sent)
  assume "script w = r # rest \<and> \<not> throttled v (status r) 0"
  then show "sent (snd (ShipCollection_purchase v p w))
         = sent w @ [build_request POST ''my/ships'' (Some [])
                (JObj [(''shipType'', json_of_sym (shipType p)),
                       (''waypointSymbol'', json_of_sym wp)]) w]"
    unfolding e by (intro api_once(1)[of w r rest]) simp_all
next
  assume a: "\<not> truthy_sym (waypointSymbol g) \<and> waypoint g = Some (Waypoints_one sys wp)
        \<and> self = Ships_one symbol"
  then have e: "sent (snd (Ship_navigate v g self w))
       = sent (snd (api v POST (''my/ships/'' @ tpl symbol @ ''/navigate'') (Some [])
                    (JObj [(''waypointSymbol'', json_of_sym wp)]) 0 w))"
    by (intro Ship_navigate_by_ref[of g sys]) simp_all
  show "\<exists>k. sent (snd (Ship_navigate v g self w))
         = sent w @ replicate (Suc k)
             (build_request POST (''my/ships/'' @ tpl symbol @ ''/navigate'') (Some [])
                (JObj [(''waypointSymbol'', json_of_sym wp)]) w)"
    unfolding e by (rule api_sent)
  assume "script w = r # rest \<and> \<not> throttled v (status r) 0"
  then show "sent (snd (Ship_navigate v g self w))
         = sent w @ [build_request POST (''my/ships/'' @ tpl symbol @ ''/navigate'') (Some [])
                (JObj [(''waypointSymbol'', json_of_sym wp)]) w]"
    unfolding e by (intro api_once(1)[of w r rest]) simp_all
qed

theorem exclusive_arguments_witness:
  "Contract_deliver Index_ts symbol_and_ship (Contracts_one (Some ''c1'')) (fresh_world [delivered])
     = (Throw (Error ''Cannot specify both shipSymbol and ship''), fresh_world [delivered])
   \<and> sent (snd (Contract_deliver Index_ts ship_only (Contracts_one (Some ''c1''))
        (fresh_world [delivered])))
     = [\<lparr> req_method = POST, req_path = ''my/contracts/c1/deliver'',
          req_query = Some [], authorization = None,
          req_body = JObj [(''shipSymbol'', JStr ''SHIP-1''),
                           (''ship'', JRef (Ships_one (Some ''SHIP-1''))),
                           (''tradeSymbol'', JStr ''IRON_ORE''),
                           (''units'', JNum 10)] \<rparr>]
   \<and> Ship_navigate Part_000 waypoint_and_symbol (Ships_one (Some ''SHIP-1''))
        (fresh_world [delivered])
     = (Throw (Error ''Please provide waypoint or waypointSymbol but not both.''),
        fresh_world [delivered])
   \<and> sent (snd (Ship_navigate Part_000 waypoint_only (Ships_one (Some ''SHIP-1''))
        (fresh_world [delivered])))
     = [\<lparr> req_method = POST, req_path = ''my/ships/SHIP-1/navigate'',
          req_query = Some [], authorization = None,
          req_body = JObj [(''waypointSymbol'', JStr ''X1-AB12-XYZ'')] \<rparr>]
   \<and> ShipCollection_purchase Index_ts probe_at_waypoint_and_symbol
        (fresh_world [delivered])
     = (Throw (Error ''Please provide waypoint or waypointSymbol but not both.''),
        fresh_world [delivered])
   \<and> sent (snd (ShipCollection_purchase Index_ts probe_at_waypoint
        (fresh_world [delivered])))
     = [\<lparr> req_method = POST, req_path = ''my/ships'',
          req_query = Some [], authorization = None,
          req_body = JObj [(''shipType'', JStr ''SHIP_PROBE''),
                           (''waypointSymbol'', JStr ''X1-AB12-XYZ'')] \<rparr>]"
  using exclusive_arguments[where d = symbol_and_ship and v = Index_ts
          and self = "Contracts_one (Some ''c1'')" and w = "fresh_world [delivered]"]
        exclusive_arguments[where d = ship_only and v = Index_ts and s = "Some ''SHIP-1''"
          and self = "Contracts_one (Some ''c1'')" and cid = "Some ''c1''"
          and w = "fresh_world [delivered]" and r = delivered and rest = "[]"]
        exclusive_arguments[where g = waypoint_and_symbol and v = Part_000
          and self = "Ships_one (Some ''SHIP-1'')" and w = "fresh_world [delivered]"]
        exclusive_arguments[where g = waypoint_only and v = Part_000
          and sys = "Some ''X1-AB12''" and wp = "Some ''X1-AB12-XYZ''"
          and self = "Ships_one (Some ''SHIP-1'')" and symbol = "Some ''SHIP-1''"
          and w = "fresh_world [delivered]" and r = delivered and rest = "[]"]
        exclusive_arguments[where p = probe_at_waypoint_and_symbol
          and v = Index_ts and w = "fresh_world [delivered]"]
        exclusive_arguments[where p = probe_at_waypoint
          and v = Index_ts and sys = "Some ''X1-AB12''" and wp = "Some ''X1-AB12-XYZ''"
          and w = "fresh_world [delivered]" and r = delivered and rest = "[]"]
  by (simp add: symbol_and_ship_def ship_only_def waypoint_only_def waypoint_and_symbol_def
        probe_at_waypoint_def probe_at_waypoint_and_symbol_def
        truthy_sym_def fresh_world_def delivered_def
        throttled_def build_request_def opt_def clean_query_def deliver_body_def json_of_sym_def
        json_of_ref_def json_of_int_def tpl_def)

section \<open>The conditional resolvers of a waypoint\<close>

text \<open>
  \<open>obj\<close>, the waypoint the resolver is called on: its \<^verbatim>\<open>symbol\<close>, its \<^verbatim>\<open>type\<close> and
  its \<^verbatim>\<open>traits\<close> (each trait with its \<^verbatim>\<open>symbol\<close>); any of them may be missing.
\<close>

datatype trait = Trait (trait_symbol: sym)

record waypoint_obj =
  obj_symbol :: sym
  obj_type :: sym
  obj_traits :: "trait list option"

text \<open>
  \<^verbatim>\<open>Array.prototype.every\<close> calls its callback with the element and its index.
\<close>

definition every :: "('a \<Rightarrow> nat \<Rightarrow> bool) \<Rightarrow> 'a list \<Rightarrow> bool" where
  "every f xs = list_all (\<lambda>(i, x). f x i) (enumerate 0 xs)"

text \<open>\<^verbatim>\<open>{ symbol }\<close> destructured from an index, a number: \<^verbatim>\<open>undefined\<close>.\<close>

definition index_symbol :: "nat \<Rightarrow> sym" where
  "index_symbol i = None"

text \<open>
  The callback of \<^verbatim>\<open>src/unnamed/part_000\<close> is \<^verbatim>\<open>({ symbol }) => symbol !== name\<close>, on
  the trait; the callback of \<^verbatim>\<open>src/index.ts\<close> is
  \<^verbatim>\<open>(_, { symbol }) => symbol !== name\<close>, on the index.
\<close>

definition lacks_trait :: "source \<Rightarrow> string \<Rightarrow> trait list \<Rightarrow> bool" where
  "lacks_trait v name ts =
     (case v of
        Index_ts \<Rightarrow> every (\<lambda>t i. index_symbol i \<noteq> Some name) ts
      | Part_000 \<Rightarrow> every (\<lambda>t i. trait_symbol t \<noteq> Some name) ts)"

text \<open>\<^verbatim>\<open>obj?.traits?.every(...)\<close>: \<^verbatim>\<open>undefined\<close>, hence falsy, without a trait list.\<close>

definition ruled_out :: "source \<Rightarrow> string \<Rightarrow> waypoint_obj \<Rightarrow> bool" where
  "ruled_out v name obj =
     (case obj_traits obj of None \<Rightarrow> False | Some ts \<Rightarrow> lacks_trait v name ts)"

text \<open>\<^verbatim>\<open>try { m } catch (err) { h(err) }\<close>\<close>

definition try_catch :: "'a action \<Rightarrow> (error \<Rightarrow> 'a action) \<Rightarrow> 'a action" where
  "try_catch m h w =
     (case m w of
        (Throw e, w') \<Rightarrow> h e w'
      | (Return x, w') \<Rightarrow> (Return x, w')
      | (Pending, w') \<Rightarrow> (Pending, w'))"

text \<open>\<^verbatim>\<open>err.status\<close>: only the error thrown by \<^verbatim>\<open>api\<close> has one.\<close>

fun err_status :: "error \<Rightarrow> nat option" where
  "err_status (ApiError st msg) = Some st"
| "err_status e = None"

text \<open>\<^verbatim>\<open>if (err.status === st) { return null; } throw err;\<close>\<close>

definition null_when :: "nat \<Rightarrow> error \<Rightarrow> json action" where
  "null_when st err = (if err_status err = Some st then ret JNull else throw err)"

text \<open>
  \<^verbatim>\<open>self.$argsAt(root.systems.one)?.symbol || context.systemSymbol\<close> and
  \<^verbatim>\<open>obj.symbol ?? self.$argsAt(root.systems.one.waypoints.one)?.symbol\<close>
\<close>

definition system_of :: "gref \<Rightarrow> resolver_context \<Rightarrow> sym" where
  "system_of self ctx = or_sym (opt_symbol (argsAt_systems_one self)) (systemSymbol ctx)"

definition waypoint_of :: "gref \<Rightarrow> waypoint_obj \<Rightarrow> sym" where
  "waypoint_of self obj = coalesce_sym (obj_symbol obj) (opt_symbol (argsAt_waypoints_one self))"

definition Waypoint_shipyard ::
  "source \<Rightarrow> gref \<Rightarrow> waypoint_obj \<Rightarrow> resolver_context \<Rightarrow> json action" where
  "Waypoint_shipyard v self obj ctx =
     (if ruled_out v ''SHIPYARD'' obj then ret JNull
      else try_catch
             (await (api v GET (''systems/'' @ tpl (system_of self ctx) @ ''/waypoints/''
                                 @ tpl (waypoint_of self obj) @ ''/shipyard'')
                       None JUndefined 0) (\<lambda>res.
                dot res ''data''))
             (null_when 404))"

text \<open>\<^verbatim>\<open>state.cachedMarkets[key] = d\<close> and \<^verbatim>\<open>state.cachedJumpGates[key] = d\<close>\<close>

definition put_market :: "string \<Rightarrow> json \<Rightarrow> unit action" where
  "put_market key d w = (Return (), w\<lparr>cachedMarkets := (cachedMarkets w)(key := d)\<rparr>)"

definition put_jumpGate :: "string \<Rightarrow> json \<Rightarrow> unit action" where
  "put_jumpGate key d w = (Return (), w\<lparr>cachedJumpGates := (cachedJumpGates w)(key := d)\<rparr>)"

text \<open>A waypoint that is \<^verbatim>\<open>undefined\<close> indexes the cache under the key \<^verbatim>\<open>"undefined"\<close>.\<close>

definition Waypoint_market ::
  "source \<Rightarrow> gref \<Rightarrow> waypoint_obj \<Rightarrow> resolver_context \<Rightarrow> json action" where
  "Waypoint_market v self obj ctx w =
     (if truthy (opt (cachedMarkets w (tpl (waypoint_of self obj))) ''transactions'')
      then ret (cachedMarkets w (tpl (waypoint_of self obj))) w
      else if ruled_out v ''MARKETPLACE'' obj then ret JNull w
      else try_catch
             (await (api v GET (''systems/'' @ tpl (system_of self ctx) @ ''/waypoints/''
                                 @ tpl (waypoint_of self obj) @ ''/market'')
                       None JUndefined 0) (\<lambda>res.
              await (dot res ''data'') (\<lambda>d.
              await (put_market (tpl (waypoint_of self obj)) d) (\<lambda>u.
                ret d))))
             (null_when 404) w)"

text \<open>
  \<^verbatim>\<open>Waypoint.jumpGate\<close>; the status taken for "not available" is 400 in
  \<^verbatim>\<open>src/index.ts\<close> and 404 in \<^verbatim>\<open>src/unnamed/part_000\<close>.
\<close>

definition Waypoint_jumpGate ::
  "source \<Rightarrow> gref \<Rightarrow> waypoint_obj \<Rightarrow> resolver_context \<Rightarrow> json action" where
  "Waypoint_jumpGate v self obj ctx w =
     (if truthy (cachedJumpGates w (tpl (waypoint_of self obj)))
      then ret (cachedJumpGates w (tpl (waypoint_of self obj))) w
      else if obj_type obj \<noteq> Some ''JUMP_GATE'' then ret JNull w
      else try_catch
             (await (api v GET (''systems/'' @ tpl (system_of self ctx) @ ''/waypoints/''
                                 @ tpl (waypoint_of self obj) @ ''/jump-gate'')
                       None JUndefined 0) (\<lambda>res.
              await (dot res ''data'') (\<lambda>d.
              await (put_jumpGate (tpl (waypoint_of self obj)) d) (\<lambda>u.
                ret d))))
             (null_when (case v of Index_ts \<Rightarrow> 400 | Part_000 \<Rightarrow> 404)) w)"

subsection \<open>The trait test\<close>

lemma every_element:
  "every (\<lambda>t i. P t) xs = (\<forall>t\<in>set xs. P t)"
proof -
  have "list_all (\<lambda>(i, x). P x) (enumerate n xs) = (\<forall>t\<in>set xs. P t)" for n
    by (induction xs arbitrary: n) auto
  then show ?thesis by (simp add: every_def)
qed

lemma every_index_symbol: "every (\<lambda>t i. index_symbol i \<noteq> Some name) xs"
proof -
  have "list_all (\<lambda>(i, x). index_symbol i \<noteq> Some name) (enumerate n xs)" for n
    by (induction xs arbitrary: n) (auto simp: index_symbol_def)
  then show ?thesis by (simp add: every_def)
qed

lemma lacks_trait_index_ts: "lacks_trait Index_ts name ts"
  by (simp add: lacks_trait_def every_index_symbol)

lemma lacks_trait_part_000:
  "lacks_trait Part_000 name ts = (\<forall>t\<in>set ts. trait_symbol t \<noteq> Some name)"
  by (simp add: lacks_trait_def every_element)

lemma ruled_out_lacking:
  "obj_traits obj = Some ts \<Longrightarrow> \<forall>t\<in>set ts. trait_symbol t \<noteq> Some name \<Longrightarrow> ruled_out v name obj"
  by (cases v) (simp_all add: ruled_out_def lacks_trait_index_ts lacks_trait_part_000)

lemma not_ruled_out:
  "obj_traits obj = None
     \<or> (v = Part_000 \<and> obj_traits obj = Some ts \<and> (\<exists>t\<in>set ts. trait_symbol t = Some name))
   \<Longrightarrow> \<not> ruled_out v name obj"
  by (auto simp: ruled_out_def lacks_trait_part_000)

subsection \<open>The three resolvers, case by case\<close>

lemma try_catch_sent:
  assumes "\<And>e w'. sent (snd (h e w')) = sent w'"
  shows "sent (snd (try_catch m h w)) = sent (snd (m w))"
  using assms by (auto simp: try_catch_def split: prod.splits outcome.splits)

lemma null_when_world: "snd (null_when st e w) = w"
  by (simp add: null_when_def ret_def throw_def)

lemma Waypoint_shipyard_fetch:
  assumes "\<not> ruled_out v ''SHIPYARD'' obj"
    and "path = ''systems/'' @ tpl (system_of self ctx) @ ''/waypoints/''
                  @ tpl (waypoint_of self obj) @ ''/shipyard''"
  shows "\<exists>n. sent (snd (Waypoint_shipyard v self obj ctx w))
            = sent w @ replicate (Suc n) (build_request GET path None JUndefined w)"
    and "api v GET path None JUndefined 0 w = (Throw (ApiError 404 msg), w')
         \<Longrightarrow> Waypoint_shipyard v self obj ctx w = (Return JNull, w')"
    and "api v GET path None JUndefined 0 w = (Throw e, w') \<Longrightarrow> err_status e \<noteq> Some 404
         \<Longrightarrow> Waypoint_shipyard v self obj ctx w = (Throw e, w')"
    and "api v GET path None JUndefined 0 w = (Return res, w') \<Longrightarrow> \<not> nullish res
         \<Longrightarrow> Waypoint_shipyard v self obj ctx w = (Return (field res ''data''), w')"
proof -
  have eq: "Waypoint_shipyard v self obj ctx w
     = try_catch (await (api v GET path None JUndefined 0) (\<lambda>res. dot res ''data'')) (null_when 404) w"
    using assms by (simp add: Waypoint_shipyard_def)
  have "sent (snd (Waypoint_shipyard v self obj ctx w)) = sent (snd (api v GET path None JUndefined 0 w))"
    unfolding eq by (simp add: try_catch_sent null_when_world await_sent dot_world)
  then show "\<exists>n. sent (snd (Waypoint_shipyard v self obj ctx w))
            = sent w @ replicate (Suc n) (build_request GET path None JUndefined w)"
    using api_sent[of v GET path None JUndefined 0 w] by simp
  show "api v GET path None JUndefined 0 w = (Throw (ApiError 404 msg), w')
         \<Longrightarrow> Waypoint_shipyard v self obj ctx w = (Return JNull, w')"
    unfolding eq by (simp add: try_catch_def await_def null_when_def ret_def)
  show "api v GET path None JUndefined 0 w = (Throw e, w') \<Longrightarrow> err_status e \<noteq> Some 404
         \<Longrightarrow> Waypoint_shipyard v self obj ctx w = (Throw e, w')"
    unfolding eq by (simp add: try_catch_def await_def null_when_def throw_def)
  show "api v GET path None JUndefined 0 w = (Return res, w') \<Longrightarrow> \<not> nullish res
         \<Longrightarrow> Waypoint_shipyard v self obj ctx w = (Return (field res ''data''), w')"
    unfolding eq by (simp add: try_catch_def await_def dot_def ret_def)
qed

lemma put_market_sent: "sent (snd (put_market k d w)) = sent w"
  by (simp add: put_market_def)

lemma Waypoint_market_fetch:
  assumes "\<not> truthy (opt (cachedMarkets w (tpl (waypoint_of self obj))) ''transactions'')"
    and "\<not> ruled_out v ''MARKETPLACE'' obj"
    and "path = ''systems/'' @ tpl (system_of self ctx) @ ''/waypoints/''
                  @ tpl (waypoint_of self obj) @ ''/market''"
  shows "\<exists>n. sent (snd (Waypoint_market v self obj ctx w))
            = sent w @ replicate (Suc n) (build_request GET path None JUndefined w)"
    and "api v GET path None JUndefined 0 w = (Throw (ApiError 404 msg), w')
         \<Longrightarrow> Waypoint_market v self obj ctx w = (Return JNull, w')"
    and "api v GET path None JUndefined 0 w = (Throw e, w') \<Longrightarrow> err_status e \<noteq> Some 404
         \<Longrightarrow> Waypoint_market v self obj ctx w = (Throw e, w')"
    and "api v GET path None JUndefined 0 w = (Return res, w') \<Longrightarrow> \<not> nullish res
         \<Longrightarrow> Waypoint_market v self obj ctx w
             = (Return (field res ''data''),
                w'\<lparr>cachedMarkets := (cachedMarkets w')(tpl (waypoint_of self obj) := field res ''data'')\<rparr>)"
proof -
  have eq: "Waypoint_market v self obj ctx w
     = try_catch (await (api v GET path None JUndefined 0) (\<lambda>res.
              await (dot res ''data'') (\<lambda>d.
              await (put_market (tpl (waypoint_of self obj)) d) (\<lambda>u. ret d)))) (null_when 404) w"
    using assms by (simp add: Waypoint_market_def)
  have "sent (snd (Waypoint_market v self obj ctx w)) = sent (snd (api v GET path None JUndefined 0 w))"
    unfolding eq
    by (rule trans[OF try_catch_sent], simp add: null_when_world,
        rule await_sent, simp add: await_def dot_def throw_def ret_def put_market_def)
  then show "\<exists>n. sent (snd (Waypoint_market v self obj ctx w))
            = sent w @ replicate (Suc n) (build_request GET path None JUndefined w)"
    using api_sent[of v GET path None JUndefined 0 w] by simp
  show "api v GET path None JUndefined 0 w = (Throw (ApiError 404 msg), w')
         \<Longrightarrow> Waypoint_market v self obj ctx w = (Return JNull, w')"
    unfolding eq by (simp add: try_catch_def await_def null_when_def ret_def)
  show "api v GET path None JUndefined 0 w = (Throw e, w') \<Longrightarrow> err_status e \<noteq> Some 404
         \<Longrightarrow> Waypoint_market v self obj ctx w = (Throw e, w')"
    unfolding eq by (simp add: try_catch_def await_def null_when_def throw_def)
  show "api v GET path None JUndefined 0 w = (Return res, w') \<Longrightarrow> \<not> nullish res
         \<Longrightarrow> Waypoint_market v self obj ctx w
             = (Return (field res ''data''),
                w'\<lparr>cachedMarkets := (cachedMarkets w')(tpl (waypoint_of self obj) := field res ''data'')\<rparr>)"
    unfolding eq by (simp add: try_catch_def await_def dot_def ret_def put_market_def)
qed

lemma Waypoint_jumpGate_fetch:
  assumes "\<not> truthy (cachedJumpGates w (tpl (waypoint_of self obj)))"
    and "obj_type obj = Some ''JUMP_GATE''"
    and "path = ''systems/'' @ tpl (system_of self ctx) @ ''/waypoints/''
                  @ tpl (waypoint_of self obj) @ ''/jump-gate''"
    and "nf = (case v of Index_ts \<Rightarrow> 400 | Part_000 \<Rightarrow> 404)"
  shows "\<exists>n. sent (snd (Waypoint_jumpGate v self obj ctx w))
            = sent w @ replicate (Suc n) (build_request GET path None JUndefined w)"
    and "api v GET path None JUndefined 0 w = (Throw (ApiError nf msg), w')
         \<Longrightarrow> Waypoint_jumpGate v self obj ctx w = (Return JNull, w')"
    and "api v GET path None JUndefined 0 w = (Throw e, w') \<Longrightarrow> err_status e \<noteq> Some nf
         \<Longrightarrow> Waypoint_jumpGate v self obj ctx w = (Throw e, w')"
    and "api v GET path None JUndefined 0 w = (Return res, w') \<Longrightarrow> \<not> nullish res
         \<Longrightarrow> Waypoint_jumpGate v self obj ctx w
             = (Return (field res ''data''),
                w'\<lparr>cachedJumpGates := (cachedJumpGates w')(tpl (waypoint_of self obj) := field res ''data'')\<rparr>)"
proof -
  have eq: "Waypoint_jumpGate v self obj ctx w
     = try_catch (await (api v GET path None JUndefined 0) (\<lambda>res.
              await (dot res ''data'') (\<lambda>d.
              await (put_jumpGate (tpl (waypoint_of self obj)) d) (\<lambda>u. ret d)))) (null_when nf) w"
    using assms by (simp add: Waypoint_jumpGate_def)
  have "sent (snd (Waypoint_jumpGate v self obj ctx w)) = sent (snd (api v GET path None JUndefined 0 w))"
    unfolding eq
    by (rule trans[OF try_catch_sent], simp add: null_when_world,
        rule await_sent, simp add: await_def dot_def throw_def ret_def put_jumpGate_def)
  then show "\<exists>n. sent (snd (Waypoint_jumpGate v self obj ctx w))
            = sent w @ replicate (Suc n) (build_request GET path None JUndefined w)"
    using api_sent[of v GET path None JUndefined 0 w] by simp
  show "api v GET path None JUndefined 0 w = (Throw (ApiError nf msg), w')
         \<Longrightarrow> Waypoint_jumpGate v self obj ctx w = (Return JNull, w')"
    unfolding eq by (simp add: try_catch_def await_def null_when_def ret_def)
  show "api v GET path None JUndefined 0 w = (Throw e, w') \<Longrightarrow> err_status e \<noteq> Some nf
         \<Longrightarrow> Waypoint_jumpGate v self obj ctx w = (Throw e, w')"
    unfolding eq by (simp add: try_catch_def await_def null_when_def throw_def)
  show "api v GET path None JUndefined 0 w = (Return res, w') \<Longrightarrow> \<not> nullish res
         \<Longrightarrow> Waypoint_jumpGate v self obj ctx w
             = (Return (field res ''data''),
                w'\<lparr>cachedJumpGates := (cachedJumpGates w')(tpl (waypoint_of self obj) := field res ''data'')\<rparr>)"
    unfolding eq by (simp add: try_catch_def await_def dot_def ret_def put_jumpGate_def)
qed

lemma Waypoint_market_hit:
  "truthy (opt (cachedMarkets w (tpl (waypoint_of self obj))) ''transactions'')
   \<Longrightarrow> Waypoint_market v self obj ctx w = (Return (cachedMarkets w (tpl (waypoint_of self obj))), w)"
  by (simp add: Waypoint_market_def ret_def)

lemma Waypoint_jumpGate_hit:
  "truthy (cachedJumpGates w (tpl (waypoint_of self obj)))
   \<Longrightarrow> Waypoint_jumpGate v self obj ctx w = (Return (cachedJumpGates w (tpl (waypoint_of self obj))), w)"
  by (simp add: Waypoint_jumpGate_def ret_def)

lemma Waypoint_market_ruled_out:
  "\<not> truthy (opt (cachedMarkets w (tpl (waypoint_of self obj))) ''transactions'')
   \<Longrightarrow> ruled_out v ''MARKETPLACE'' obj
   \<Longrightarrow> Waypoint_market v self obj ctx w = (Return JNull, w)"
  by (simp add: Waypoint_market_def ret_def)

lemma Waypoint_jumpGate_ruled_out:
  "\<not> truthy (cachedJumpGates w (tpl (waypoint_of self obj)))
   \<Longrightarrow> obj_type obj \<noteq> Some ''JUMP_GATE''
   \<Longrightarrow> Waypoint_jumpGate v self obj ctx w = (Return JNull, w)"
  by (simp add: Waypoint_jumpGate_def ret_def)

lemma Waypoint_shipyard_ruled_out:
  "ruled_out v ''SHIPYARD'' obj \<Longrightarrow> Waypoint_shipyard v self obj ctx w = (Return JNull, w)"
  by (simp add: Waypoint_shipyard_def ret_def)

text \<open>
  In \<^verbatim>\<open>src/index.ts\<close> the callback of \<^verbatim>\<open>every\<close> reads \<^verbatim>\<open>symbol\<close> from the index,
  never from the trait: whenever the waypoint has a trait list, the shipyard resolver
  returns null without fetching, even if the list holds the SHIPYARD trait (and so does
  the market resolver on a cache miss).
\<close>

lemma Waypoint_shipyard_index_ts_with_traits:
  "obj_traits obj = Some ts \<Longrightarrow> Waypoint_shipyard Index_ts self obj ctx w = (Return JNull, w)"
  by (simp add: Waypoint_shipyard_def ruled_out_def lacks_trait_index_ts ret_def)

subsection \<open>Example waypoints, responses and worlds\<close>

definition wp_ref :: gref where
  "wp_ref = Waypoints_one (Some ''X1-AB12'') (Some ''X1-AB12-XYZ'')"

definition no_context :: resolver_context where
  "no_context = \<lparr> systemSymbol = None \<rparr>"

definition bare_waypoint :: waypoint_obj where
  "bare_waypoint = \<lparr> obj_symbol = Some ''X1-AB12-XYZ'', obj_type = None, obj_traits = None \<rparr>"

definition barren_waypoint :: waypoint_obj where
  "barren_waypoint =
     \<lparr> obj_symbol = Some ''X1-AB12-XYZ'', obj_type = Some ''PLANET'',
       obj_traits = Some [Trait (Some ''BARREN'')] \<rparr>"

definition trading_post :: waypoint_obj where
  "trading_post =
     \<lparr> obj_symbol = Some ''X1-AB12-XYZ'', obj_type = Some ''PLANET'',
       obj_traits = Some [Trait (Some ''MARKETPLACE''), Trait (Some ''SHIPYARD'')] \<rparr>"

definition gate :: waypoint_obj where
  "gate =
     \<lparr> obj_symbol = Some ''X1-AB12-XYZ'', obj_type = Some ''JUMP_GATE'', obj_traits = Some [] \<rparr>"

definition market_data :: json where
  "market_data = JObj [(''symbol'', JStr ''X1-AB12-XYZ''), (''transactions'', JArr [])]"

definition ok_market :: response where
  \<open>ok_market =
     \<lparr> status = 200, text_body = ''{"data":{"symbol":"X1-AB12-XYZ","transactions":[]}}'',
       json_body = Some (JObj [(''data'', JObj [(''symbol'', JStr ''X1-AB12-XYZ''),
                                                 (''transactions'', JArr [])])]) \<rparr>\<close>

definition not_found :: response where
  \<open>not_found =
     \<lparr> status = 404, text_body = ''{"error":{"message":"Not found"}}'',
       json_body = Some (JObj [(''error'', JObj [(''message'', JStr ''Not found'')])]) \<rparr>\<close>

definition bad_request :: response where
  \<open>bad_request =
     \<lparr> status = 400, text_body = ''{"error":{"message":"Bad request"}}'',
       json_body = Some (JObj [(''error'', JObj [(''message'', JStr ''Bad request'')])]) \<rparr>\<close>

definition market_request :: request where
  "market_request =
     \<lparr> req_method = GET, req_path = ''systems/X1-AB12/waypoints/X1-AB12-XYZ/market'',
       req_query = None, authorization = None, req_body = JUndefined \<rparr>"

text \<open>The world once the market of \<^verbatim>\<open>X1-AB12-XYZ\<close> has been fetched and stored.\<close>

definition stocked_world :: world where
  "stocked_world =
     \<lparr> data = JUndefined,
       cachedMarkets = (\<lambda>k. JUndefined)(''X1-AB12-XYZ'' := market_data),
       cachedJumpGates = (\<lambda>k. JUndefined), script = [], sent = [market_request],
       scheduled = [] \<rparr>"

definition gate_world :: world where
  "gate_world =
     \<lparr> data = JUndefined, cachedMarkets = (\<lambda>k. JUndefined),
       cachedJumpGates = (\<lambda>k. JUndefined)(''X1-AB12-XYZ'' := JObj []), script = [], sent = [],
       scheduled = [] \<rparr>"

lemmas example_defs =
  wp_ref_def no_context_def bare_waypoint_def barren_waypoint_def trading_post_def gate_def
  market_data_def ok_market_def not_found_def bad_request_def market_request_def
  stocked_world_def gate_world_def fresh_world_def

lemmas eval_defs =
  api.simps fetch_Cons fetch_Nil throttled_def build_request_def opt_def clean_query_def
  tpl_def waypoint_of_def system_of_def coalesce_sym_def or_sym_def truthy_sym_def
  opt_symbol_def await_def ret_def throw_def dot_def try_catch_def null_when_def
  put_market_def put_jumpGate_def ruled_out_def lacks_trait_def every_def index_symbol_def

definition shipyard_request :: request where
  "shipyard_request =
     \<lparr> req_method = GET, req_path = ''systems/X1-AB12/waypoints/X1-AB12-XYZ/shipyard'',
       req_query = None, authorization = None, req_body = JUndefined \<rparr>"

definition gate_request :: request where
  "gate_request =
     \<lparr> req_method = GET, req_path = ''systems/X1-AB12/waypoints/X1-AB12-XYZ/jump-gate'',
       req_query = None, authorization = None, req_body = JUndefined \<rparr>"

section \<open>The caches\<close>

subsection \<open>A call of \<^verbatim>\<open>api\<close> neither reads nor writes the caches\<close>

lemma build_request_caches:
  "build_request m path query body (w\<lparr>cachedMarkets := c\<rparr>) = build_request m path query body w"
  "build_request m path query body (w\<lparr>cachedJumpGates := c\<rparr>) = build_request m path query body w"
  by (simp_all add: build_request_def)

lemma api_cachedMarkets:
  "api v m path query body retry (w\<lparr>cachedMarkets := c\<rparr>)
     = (fst (api v m path query body retry w),
        (snd (api v m path query body retry w))\<lparr>cachedMarkets := c\<rparr>)"
proof (induction v m path query body retry w rule: api.induct)
  case (1 v m path query body retry w)
  note here = api.simps[of v m path query body retry w]
    api.simps[of v m path query body retry "w\<lparr>cachedMarkets := c\<rparr>"]
  show ?case
  proof (cases "script w")
    case Nil
    then show ?thesis by (simp add: here fetch_def build_request_caches)
  next
    case (Cons res rest)
    have f: "fetch (build_request m path query body w) w
          = (Return res, w\<lparr>script := rest, sent := sent w @ [build_request m path query body w]\<rparr>)"
      using Cons by (simp add: fetch_def)
    have g: "fetch (build_request m path query body w) (w\<lparr>cachedMarkets := c\<rparr>)
          = (Return res, w\<lparr>script := rest, sent := sent w @ [build_request m path query body w],
               cachedMarkets := c\<rparr>)"
      using Cons by (simp add: fetch_def)
    show ?thesis
    proof (cases "throttled v (status res) retry")
      case True
      from "1.IH"[OF f[symmetric] refl True] f g True
      show ?thesis by (simp add: here build_request_caches)
    next
      case False
      then show ?thesis using f g
        by (simp add: here build_request_caches split: option.splits)
    qed
  qed
qed

lemma api_cachedJumpGates:
  "api v m path query body retry (w\<lparr>cachedJumpGates := c\<rparr>)
     = (fst (api v m path query body retry w),
        (snd (api v m path query body retry w))\<lparr>cachedJumpGates := c\<rparr>)"
proof (induction v m path query body retry w rule: api.induct)
  case (1 v m path query body retry w)
  note here = api.simps[of v m path query body retry w]
    api.simps[of v m path query body retry "w\<lparr>cachedJumpGates := c\<rparr>"]
  show ?case
  proof (cases "script w")
    case Nil
    then show ?thesis by (simp add: here fetch_def build_request_caches)
  next
    case (Cons res rest)
    have f: "fetch (build_request m path query body w) w
          = (Return res, w\<lparr>script := rest, sent := sent w @ [build_request m path query body w]\<rparr>)"
      using Cons by (simp add: fetch_def)
    have g: "fetch (build_request m path query body w) (w\<lparr>cachedJumpGates := c\<rparr>)
          = (Return res, w\<lparr>script := rest, sent := sent w @ [build_request m path query body w],
               cachedJumpGates := c\<rparr>)"
      using Cons by (simp add: fetch_def)
    show ?thesis
    proof (cases "throttled v (status res) retry")
      case True
      from "1.IH"[OF f[symmetric] refl True] f g True
      show ?thesis by (simp add: here build_request_caches)
    next
      case False
      then show ?thesis using f g
        by (simp add: here build_request_caches split: option.splits)
    qed
  qed
qed

subsection \<open>Hit and miss\<close>

text \<open>
  On a miss the resolver does what it would do with nothing stored under the key: the
  same outcome and the same requests.
\<close>

lemma Waypoint_market_miss_as_absent:
  assumes "\<not> truthy (opt (cachedMarkets w (tpl (waypoint_of self obj))) ''transactions'')"
  shows "fst (Waypoint_market v self obj ctx w)
       = fst (Waypoint_market v self obj ctx
               (w\<lparr>cachedMarkets := (cachedMarkets w)(tpl (waypoint_of self obj) := JUndefined)\<rparr>))"
    and "sent (snd (Waypoint_market v self obj ctx w))
       = sent (snd (Waypoint_market v self obj ctx
               (w\<lparr>cachedMarkets := (cachedMarkets w)(tpl (waypoint_of self obj) := JUndefined)\<rparr>)))"
  using assms
  by (auto simp: Waypoint_market_def api_cachedMarkets try_catch_def await_def ret_def throw_def
        dot_def null_when_def put_market_def opt_def
      split: prod.splits outcome.splits if_splits)

lemma Waypoint_jumpGate_miss_as_absent:
  assumes "\<not> truthy (cachedJumpGates w (tpl (waypoint_of self obj)))"
  shows "fst (Waypoint_jumpGate v self obj ctx w)
       = fst (Waypoint_jumpGate v self obj ctx
               (w\<lparr>cachedJumpGates := (cachedJumpGates w)(tpl (waypoint_of self obj) := JUndefined)\<rparr>))"
    and "sent (snd (Waypoint_jumpGate v self obj ctx w))
       = sent (snd (Waypoint_jumpGate v self obj ctx
               (w\<lparr>cachedJumpGates := (cachedJumpGates w)(tpl (waypoint_of self obj) := JUndefined)\<rparr>)))"
  using assms
  by (auto simp: Waypoint_jumpGate_def api_cachedJumpGates try_catch_def await_def ret_def throw_def
        dot_def null_when_def put_jumpGate_def
      split: prod.splits outcome.splits if_splits)

text \<open>
  The stored value comes back with the world untouched exactly on a hit. (Without a
  hit, a result with the world untouched is the null of the trait or type test.)
\<close>

lemma truthy_transactions_not_null:
  "truthy (opt c ''transactions'') \<Longrightarrow> c \<noteq> JNull"
  by (auto simp: opt_def)

lemma Waypoint_market_served_iff:
  "(Waypoint_market v self obj ctx w = (Return (cachedMarkets w (tpl (waypoint_of self obj))), w)
      \<and> cachedMarkets w (tpl (waypoint_of self obj)) \<noteq> JNull)
   = truthy (opt (cachedMarkets w (tpl (waypoint_of self obj))) ''transactions'')"
proof (cases "truthy (opt (cachedMarkets w (tpl (waypoint_of self obj))) ''transactions'')")
  case True
  then show ?thesis
    using Waypoint_market_hit[OF True] truthy_transactions_not_null[OF True] by simp
next
  case miss: False
  show ?thesis
  proof (cases "ruled_out v ''MARKETPLACE'' obj")
    case True
    with miss show ?thesis by (auto simp: Waypoint_market_ruled_out)
  next
    case False
    from Waypoint_market_fetch(1)[OF miss False refl] obtain n where
      "sent (snd (Waypoint_market v self obj ctx w)) = sent w @ replicate (Suc n)
         (build_request GET (''systems/'' @ tpl (system_of self ctx) @ ''/waypoints/''
                  @ tpl (waypoint_of self obj) @ ''/market'') None JUndefined w)"
      by blast
    then have "snd (Waypoint_market v self obj ctx w) \<noteq> w" by auto
    then show ?thesis using miss by auto
  qed
qed

lemma Waypoint_jumpGate_served_iff:
  "(Waypoint_jumpGate v self obj ctx w = (Return (cachedJumpGates w (tpl (waypoint_of self obj))), w)
      \<and> cachedJumpGates w (tpl (waypoint_of self obj)) \<noteq> JNull)
   = truthy (cachedJumpGates w (tpl (waypoint_of self obj)))"
proof (cases "truthy (cachedJumpGates w (tpl (waypoint_of self obj)))")
  case True
  then have "cachedJumpGates w (tpl (waypoint_of self obj)) \<noteq> JNull" by auto
  then show ?thesis
    using Waypoint_jumpGate_hit[OF True] True by simp
next
  case miss: False
  show ?thesis
  proof (cases "obj_type obj = Some ''JUMP_GATE''")
    case False
    with miss show ?thesis by (auto simp: Waypoint_jumpGate_ruled_out)
  next
    case True
    from Waypoint_jumpGate_fetch(1)[OF miss True refl refl] obtain n where
      "sent (snd (Waypoint_jumpGate v self obj ctx w)) = sent w @ replicate (Suc n)
         (build_request GET (''systems/'' @ tpl (system_of self ctx) @ ''/waypoints/''
                  @ tpl (waypoint_of self obj) @ ''/jump-gate'') None JUndefined w)"
      by blast
    then have "snd (Waypoint_jumpGate v self obj ctx w) \<noteq> w" by auto
    then show ?thesis using miss by auto
  qed
qed

text \<open>Example responses.\<close>

definition null_gate :: response where
  \<open>null_gate =
     \<lparr> status = 200, text_body = ''{"data":null}'',
       json_body = Some (JObj [(''data'', JNull)]) \<rparr>\<close>

definition gate_data :: json where
  "gate_data = JObj [(''connectedSystems'', JArr [])]"

definition ok_gate :: response where
  \<open>ok_gate =
     \<lparr> status = 200, text_body = ''{"data":{"connectedSystems":[]}}'',
       json_body = Some (JObj [(''data'', JObj [(''connectedSystems'', JArr [])])]) \<rparr>\<close>

text \<open>A market as the API shows it when no ship is there: no \<^verbatim>\<open>transactions\<close>.\<close>

definition market_from_afar :: response where
  \<open>market_from_afar =
     \<lparr> status = 200, text_body = ''{"data":{"symbol":"X1-AB12-XYZ"}}'',
       json_body = Some (JObj [(''data'', JObj [(''symbol'', JStr ''X1-AB12-XYZ'')])]) \<rparr>\<close>

lemmas cache_example_defs =
  null_gate_def gate_data_def ok_gate_def market_from_afar_def gate_request_def

text \<open>
  Claim C7, as the claim states it, fails twice. An entry that is present is not always
  served: the tests are \<^verbatim>\<open>state.cachedJumpGates[waypoint]\<close> and
  \<^verbatim>\<open>state.cachedMarkets[waypoint]?.transactions\<close>, on truthiness. After a fetch whose
  \<^verbatim>\<open>data\<close> is null, the jump gate cache holds null under the key, and the next call
  sends the request again. And a cached market without transactions does not always
  force a refetch: the trait test comes next. With the market stored as the API shows
  it from afar (no \<^verbatim>\<open>transactions\<close>), the resolver of \<^verbatim>\<open>src/unnamed/part_000\<close>
  called with a trait list that holds no MARKETPLACE trait returns null and sends
  nothing, although the server had a response ready.
\<close>

theorem stored_entry_neither_served_nor_refetched:
  "cachedJumpGates
      (snd (Waypoint_jumpGate Index_ts wp_ref gate no_context (fresh_world [null_gate, ok_gate])))
      ''X1-AB12-XYZ'' = JNull
   \<and> sent (snd (Waypoint_jumpGate Index_ts wp_ref gate no_context
        (fresh_world [null_gate, ok_gate]))) = [gate_request]
   \<and> fst (Waypoint_jumpGate Index_ts wp_ref gate no_context
        (snd (Waypoint_jumpGate Index_ts wp_ref gate no_context
           (fresh_world [null_gate, ok_gate])))) = Return gate_data
   \<and> sent (snd (Waypoint_jumpGate Index_ts wp_ref gate no_context
        (snd (Waypoint_jumpGate Index_ts wp_ref gate no_context
           (fresh_world [null_gate, ok_gate]))))) = [gate_request, gate_request]
   \<and> cachedMarkets
      (snd (Waypoint_market Part_000 wp_ref bare_waypoint no_context
         (fresh_world [market_from_afar, ok_market])))
      ''X1-AB12-XYZ'' = JObj [(''symbol'', JStr ''X1-AB12-XYZ'')]
   \<and> sent (snd (Waypoint_market Part_000 wp_ref bare_waypoint no_context
        (fresh_world [market_from_afar, ok_market]))) = [market_request]
   \<and> fst (Waypoint_market Part_000 wp_ref barren_waypoint no_context
        (snd (Waypoint_market Part_000 wp_ref bare_waypoint no_context
           (fresh_world [market_from_afar, ok_market])))) = Return JNull
   \<and> sent (snd (Waypoint_market Part_000 wp_ref barren_waypoint no_context
        (snd (Waypoint_market Part_000 wp_ref bare_waypoint no_context
           (fresh_world [market_from_afar, ok_market]))))) = [market_request]"
  by (simp add: Waypoint_jumpGate_def Waypoint_market_def example_defs cache_example_defs
        eval_defs)

text \<open>
  Claim C7, amended. For the key of the waypoint: the market resolver returns the
  stored value with the world untouched (nothing is sent) if and only if the stored
  entry has a truthy \<^verbatim>\<open>transactions\<close>; the jump gate resolver does if and only if the
  stored entry is truthy, which every object and every array is, whatever its shape.
  On a miss the entry is treated as absent: the resolver has the outcome and the
  requests it would have with nothing stored. That is, it returns null, sending
  nothing, when the trait list holds no MARKETPLACE trait (when the type is not
  JUMP_GATE); it sends its request when the waypoint comes without a trait list, and in
  \<^verbatim>\<open>src/unnamed/part_000\<close> when the list holds the trait (when the type is JUMP_GATE).
  When the fetch returns a response, its \<^verbatim>\<open>data\<close> is stored under the key and
  returned.
\<close>

theorem cache_served_iff_truthy:
  assumes "key = tpl (waypoint_of self obj)"
    and "mpath = ''systems/'' @ tpl (system_of self ctx) @ ''/waypoints/''
                  @ tpl (waypoint_of self obj) @ ''/market''"
    and "jpath = ''systems/'' @ tpl (system_of self ctx) @ ''/waypoints/''
                  @ tpl (waypoint_of self obj) @ ''/jump-gate''"
  shows
  "((Waypoint_market v self obj ctx w = (Return (cachedMarkets w key), w)
       \<and> cachedMarkets w key \<noteq> JNull)
      = truthy (opt (cachedMarkets w key) ''transactions''))
   \<and> (\<not> truthy (opt (cachedMarkets w key) ''transactions'') \<longrightarrow>
      fst (Waypoint_market v self obj ctx w)
        = fst (Waypoint_market v self obj ctx
                 (w\<lparr>cachedMarkets := (cachedMarkets w)(key := JUndefined)\<rparr>))
      \<and> sent (snd (Waypoint_market v self obj ctx w))
        = sent (snd (Waypoint_market v self obj ctx
                 (w\<lparr>cachedMarkets := (cachedMarkets w)(key := JUndefined)\<rparr>))))
   \<and> (\<not> truthy (opt (cachedMarkets w key) ''transactions'')
        \<and> obj_traits obj = Some ts \<and> (\<forall>t\<in>set ts. trait_symbol t \<noteq> Some ''MARKETPLACE'') \<longrightarrow>
      Waypoint_market v self obj ctx w = (Return JNull, w))
   \<and> (\<not> truthy (opt (cachedMarkets w key) ''transactions'')
        \<and> (obj_traits obj = None
            \<or> (v = Part_000 \<and> obj_traits obj = Some ts
                \<and> (\<exists>t\<in>set ts. trait_symbol t = Some ''MARKETPLACE''))) \<longrightarrow>
      (\<exists>n. sent (snd (Waypoint_market v self obj ctx w))
            = sent w @ replicate (Suc n) (build_request GET mpath None JUndefined w)))
   \<and> (\<not> truthy (opt (cachedMarkets w key) ''transactions'')
        \<and> \<not> ruled_out v ''MARKETPLACE'' obj
        \<and> api v GET mpath None JUndefined 0 w = (Return res, w') \<and> \<not> nullish res \<longrightarrow>
      Waypoint_market v self obj ctx w
        = (Return (field res ''data''),
           w'\<lparr>cachedMarkets := (cachedMarkets w')(key := field res ''data'')\<rparr>))
   \<and> ((Waypoint_jumpGate v self obj ctx w = (Return (cachedJumpGates w key), w)
       \<and> cachedJumpGates w key \<noteq> JNull)
      = truthy (cachedJumpGates w key))
   \<and> (cachedJumpGates w key = JObj ps \<longrightarrow>
      Waypoint_jumpGate v self obj ctx w = (Return (JObj ps), w))
   \<and> (cachedJumpGates w key = JArr xs \<longrightarrow>
      Waypoint_jumpGate v self obj ctx w = (Return (JArr xs), w))
   \<and> (\<not> truthy (cachedJumpGates w key) \<longrightarrow>
      fst (Waypoint_jumpGate v self obj ctx w)
        = fst (Waypoint_jumpGate v self obj ctx
                 (w\<lparr>cachedJumpGates := (cachedJumpGates w)(key := JUndefined)\<rparr>))
      \<and> sent (snd (Waypoint_jumpGate v self obj ctx w))
        = sent (snd (Waypoint_jumpGate v self obj ctx
                 (w\<lparr>cachedJumpGates := (cachedJumpGates w)(key := JUndefined)\<rparr>))))
   \<and> (\<not> truthy (cachedJumpGates w key) \<and> obj_type obj \<noteq> Some ''JUMP_GATE'' \<longrightarrow>
      Waypoint_jumpGate v self obj ctx w = (Return JNull, w))
   \<and> (\<not> truthy (cachedJumpGates w key) \<and> obj_type obj = Some ''JUMP_GATE'' \<longrightarrow>
      (\<exists>n. sent (snd (Waypoint_jumpGate v self obj ctx w))
            = sent w @ replicate (Suc n) (build_request GET jpath None JUndefined w)))
   \<and> (\<not> truthy (cachedJumpGates w key)
        \<and> obj_type obj = Some ''JUMP_GATE''
        \<and> api v GET jpath None JUndefined 0 w = (Return res, w') \<and> \<not> nullish res \<longrightarrow>
      Waypoint_jumpGate v self obj ctx w
        = (Return (field res ''data''),
           w'\<lparr>cachedJumpGates := (cachedJumpGates w')(key := field res ''data'')\<rparr>))"
proof (intro conjI impI)
  show "(Waypoint_market v self obj ctx w = (Return (cachedMarkets w key), w)
       \<and> cachedMarkets w key \<noteq> JNull)
      = truthy (opt (cachedMarkets w key) ''transactions'')"
    unfolding assms(1) by (rule Waypoint_market_served_iff)
next
  assume "\<not> truthy (opt (cachedMarkets w key) ''transactions'')"
  then have m: "\<not> truthy (opt (cachedMarkets w (tpl (waypoint_of self obj))) ''transactions'')"
    unfolding assms(1) .
  show "fst (Waypoint_market v self obj ctx w)
        = fst (Waypoint_market v self obj ctx
                 (w\<lparr>cachedMarkets := (cachedMarkets w)(key := JUndefined)\<rparr>))"
    unfolding assms(1) using m by (rule Waypoint_market_miss_as_absent(1))
  show "sent (snd (Waypoint_market v self obj ctx w))
        = sent (snd (Waypoint_market v self obj ctx
                 (w\<lparr>cachedMarkets := (cachedMarkets w)(key := JUndefined)\<rparr>)))"
    unfolding assms(1) using m by (rule Waypoint_market_miss_as_absent(2))
next
  assume a: "\<not> truthy (opt (cachedMarkets w key) ''transactions'')
        \<and> obj_traits obj = Some ts \<and> (\<forall>t\<in>set ts. trait_symbol t \<noteq> Some ''MARKETPLACE'')"
  then have "ruled_out v ''MARKETPLACE'' obj" by (intro ruled_out_lacking[of obj ts]) simp_all
  with a show "Waypoint_market v self obj ctx w = (Return JNull, w)"
    unfolding assms(1) by (intro Waypoint_market_ruled_out) simp_all
next
  assume a: "\<not> truthy (opt (cachedMarkets w key) ''transactions'')
        \<and> (obj_traits obj = None
            \<or> (v = Part_000 \<and> obj_traits obj = Some ts
                \<and> (\<exists>t\<in>set ts. trait_symbol t = Some ''MARKETPLACE'')))"
  then have n: "\<not> ruled_out v ''MARKETPLACE'' obj" by (intro not_ruled_out[of obj v ts]) simp
  from a have m: "\<not> truthy (opt (cachedMarkets w (tpl (waypoint_of self obj))) ''transactions'')"
    unfolding assms(1) by simp
  show "\<exists>n. sent (snd (Waypoint_market v self obj ctx w))
            = sent w @ replicate (Suc n) (build_request GET mpath None JUndefined w)"
    using m n assms(2) by (rule Waypoint_market_fetch(1))
next
  assume "\<not> truthy (opt (cachedMarkets w key) ''transactions'')
        \<and> \<not> ruled_out v ''MARKETPLACE'' obj
        \<and> api v GET mpath None JUndefined 0 w = (Return res, w') \<and> \<not> nullish res"
  then show "Waypoint_market v self obj ctx w
        = (Return (field res ''data''),
           w'\<lparr>cachedMarkets := (cachedMarkets w')(key := field res ''data'')\<rparr>)"
    unfolding assms(1) by (intro Waypoint_market_fetch(4)[OF _ _ assms(2)]) simp_all
next
  show "(Waypoint_jumpGate v self obj ctx w = (Return (cachedJumpGates w key), w)
       \<and> cachedJumpGates w key \<noteq> JNull)
      = truthy (cachedJumpGates w key)"
    unfolding assms(1) by (rule Waypoint_jumpGate_served_iff)
next
  assume o: "cachedJumpGates w key = JObj ps"
  then have "truthy (cachedJumpGates w (tpl (waypoint_of self obj)))"
    unfolding assms(1) by simp
  then show "Waypoint_jumpGate v self obj ctx w = (Return (JObj ps), w)"
    using o unfolding assms(1) by (simp add: Waypoint_jumpGate_hit)
next
  assume o: "cachedJumpGates w key = JArr xs"
  then have "truthy (cachedJumpGates w (tpl (waypoint_of self obj)))"
    unfolding assms(1) by simp
  then show "Waypoint_jumpGate v self obj ctx w = (Return (JArr xs), w)"
    using o unfolding assms(1) by (simp add: Waypoint_jumpGate_hit)
next
  assume "\<not> truthy (cachedJumpGates w key)"
  then have m: "\<not> truthy (cachedJumpGates w (tpl (waypoint_of self obj)))"
    unfolding assms(1) .
  show "fst (Waypoint_jumpGate v self obj ctx w)
        = fst (Waypoint_jumpGate v self obj ctx
                 (w\<lparr>cachedJumpGates := (cachedJumpGates w)(key := JUndefined)\<rparr>))"
    unfolding assms(1) using m by (rule Waypoint_jumpGate_miss_as_absent(1))
  show "sent (snd (Waypoint_jumpGate v self obj ctx w))
        = sent (snd (Waypoint_jumpGate v self obj ctx
                 (w\<lparr>cachedJumpGates := (cachedJumpGates w)(key := JUndefined)\<rparr>)))"
    unfolding assms(1) using m by (rule Waypoint_jumpGate_miss_as_absent(2))
next
  assume "\<not> truthy (cachedJumpGates w key) \<and> obj_type obj \<noteq> Some ''JUMP_GATE''"
  then show "Waypoint_jumpGate v self obj ctx w = (Return JNull, w)"
    unfolding assms(1) by (intro Waypoint_jumpGate_ruled_out) simp_all
next
  assume a: "\<not> truthy (cachedJumpGates w key) \<and> obj_type obj = Some ''JUMP_GATE''"
  then have m: "\<not> truthy (cachedJumpGates w (tpl (waypoint_of self obj)))"
    and t: "obj_type obj = Some ''JUMP_GATE''"
    unfolding assms(1) by simp_all
  show "\<exists>n. sent (snd (Waypoint_jumpGate v self obj ctx w))
            = sent w @ replicate (Suc n) (build_request GET jpath None JUndefined w)"
    using m t assms(3) refl by (rule Waypoint_jumpGate_fetch(1))
next
  assume "\<not> truthy (cachedJumpGates w key)
        \<and> obj_type obj = Some ''JUMP_GATE''
        \<and> api v GET jpath None JUndefined 0 w = (Return res, w') \<and> \<not> nullish res"
  then show "Waypoint_jumpGate v self obj ctx w
        = (Return (field res ''data''),
           w'\<lparr>cachedJumpGates := (cachedJumpGates w')(key := field res ''data'')\<rparr>)"
    unfolding assms(1) by (intro Waypoint_jumpGate_fetch(4)[OF _ _ assms(3) refl]) simp_all
qed

theorem cache_served_iff_truthy_witness:
  "Waypoint_market Part_000 wp_ref trading_post no_context (fresh_world [ok_market])
     = (Return market_data, stocked_world)
   \<and> Waypoint_market Part_000 wp_ref trading_post no_context stocked_world
     = (Return market_data, stocked_world)
   \<and> Waypoint_jumpGate Index_ts wp_ref gate no_context gate_world
     = (Return (JObj []), gate_world)
   \<and> Waypoint_market Part_000 wp_ref barren_waypoint no_context (fresh_world [ok_market])
     = (Return JNull, fresh_world [ok_market])"
  using cache_served_iff_truthy[where key = "''X1-AB12-XYZ''" and self = wp_ref
          and obj = trading_post and ctx = no_context and v = Part_000
          and w = "fresh_world [ok_market]"
          and mpath = "''systems/X1-AB12/waypoints/X1-AB12-XYZ/market''"
          and jpath = "''systems/X1-AB12/waypoints/X1-AB12-XYZ/jump-gate''"
          and res = "JObj [(''data'', market_data)]"
          and w' = "\<lparr> data = JUndefined, cachedMarkets = (\<lambda>k. JUndefined),
             cachedJumpGates = (\<lambda>k. JUndefined), script = [], sent = [market_request],
             scheduled = [] \<rparr>"]
        cache_served_iff_truthy[where key = "''X1-AB12-XYZ''" and self = wp_ref
          and obj = trading_post and ctx = no_context and v = Part_000 and w = stocked_world
          and mpath = "''systems/X1-AB12/waypoints/X1-AB12-XYZ/market''"
          and jpath = "''systems/X1-AB12/waypoints/X1-AB12-XYZ/jump-gate''"]
        cache_served_iff_truthy[where key = "''X1-AB12-XYZ''" and self = wp_ref and obj = gate
          and ctx = no_context and v = Index_ts and w = gate_world and ps = "[]"
          and mpath = "''systems/X1-AB12/waypoints/X1-AB12-XYZ/market''"
          and jpath = "''systems/X1-AB12/waypoints/X1-AB12-XYZ/jump-gate''"]
        cache_served_iff_truthy[where key = "''X1-AB12-XYZ''" and self = wp_ref
          and obj = barren_waypoint and ctx = no_context and v = Part_000
          and w = "fresh_world [ok_market]" and ts = "[Trait (Some ''BARREN'')]"
          and mpath = "''systems/X1-AB12/waypoints/X1-AB12-XYZ/market''"
          and jpath = "''systems/X1-AB12/waypoints/X1-AB12-XYZ/jump-gate''"]
  by (simp add: example_defs eval_defs)

section \<open>Null for a sub-resource that cannot exist or is not found\<close>

text \<open>
  Claim C3, as the claim states it, fails: the market resolver looks in the cache before
  it looks at the traits (as the jump gate resolver does before it looks at the type).
  Once the market of a waypoint has been fetched and stored (here through a waypoint
  object that came without a trait list), the resolver called on that waypoint with a
  trait list that holds no MARKETPLACE trait returns the stored market, not null.
\<close>

theorem Waypoint_market_serves_cache_before_traits:
  "snd (Waypoint_market Part_000 wp_ref bare_waypoint no_context (fresh_world [ok_market]))
     = stocked_world
   \<and> obj_traits barren_waypoint = Some [Trait (Some ''BARREN'')]
   \<and> Waypoint_market Part_000 wp_ref barren_waypoint no_context stocked_world
     = (Return market_data, stocked_world)
   \<and> Waypoint_market Index_ts wp_ref barren_waypoint no_context stocked_world
     = (Return market_data, stocked_world)"
  by (simp add: Waypoint_market_def example_defs eval_defs)

text \<open>
  Claim C3, amended. (1) A waypoint whose trait list holds no SHIPYARD trait: the
  shipyard resolver returns null and the world is untouched. On a cache miss, a
  waypoint whose trait list holds no MARKETPLACE trait, and a waypoint whose type is not
  JUMP_GATE: the market and the jump gate resolver return null and the world is
  untouched. (2) On a cache hit the market and the jump gate resolver return the stored
  value, whatever the traits and the type. (3) A waypoint that comes without a trait
  list, and in \<^verbatim>\<open>src/unnamed/part_000\<close> a waypoint whose list holds the trait, and on
  a cache miss a waypoint of type JUMP_GATE: the resolver sends its request, and when
  the call fails with the not-found status (404; for the jump gate 400 in
  \<^verbatim>\<open>src/index.ts\<close>) it returns null.
\<close>

theorem conditional_resolvers:
  assumes "key = tpl (waypoint_of self obj)"
    and "spath = ''systems/'' @ tpl (system_of self ctx) @ ''/waypoints/''
                  @ tpl (waypoint_of self obj) @ ''/shipyard''"
    and "mpath = ''systems/'' @ tpl (system_of self ctx) @ ''/waypoints/''
                  @ tpl (waypoint_of self obj) @ ''/market''"
    and "jpath = ''systems/'' @ tpl (system_of self ctx) @ ''/waypoints/''
                  @ tpl (waypoint_of self obj) @ ''/jump-gate''"
  shows
  "(obj_traits obj = Some ts \<and> (\<forall>t\<in>set ts. trait_symbol t \<noteq> Some ''SHIPYARD'') \<longrightarrow>
      Waypoint_shipyard v self obj ctx w = (Return JNull, w))
   \<and> (\<not> truthy (opt (cachedMarkets w key) ''transactions'')
        \<and> obj_traits obj = Some ts \<and> (\<forall>t\<in>set ts. trait_symbol t \<noteq> Some ''MARKETPLACE'') \<longrightarrow>
      Waypoint_market v self obj ctx w = (Return JNull, w))
   \<and> (\<not> truthy (cachedJumpGates w key) \<and> obj_type obj \<noteq> Some ''JUMP_GATE'' \<longrightarrow>
      Waypoint_jumpGate v self obj ctx w = (Return JNull, w))
   \<and> (truthy (opt (cachedMarkets w key) ''transactions'') \<longrightarrow>
      Waypoint_market v self obj ctx w = (Return (cachedMarkets w key), w))
   \<and> (truthy (cachedJumpGates w key) \<longrightarrow>
      Waypoint_jumpGate v self obj ctx w = (Return (cachedJumpGates w key), w))
   \<and> (obj_traits obj = None
        \<or> (v = Part_000 \<and> obj_traits obj = Some ts
            \<and> (\<exists>t\<in>set ts. trait_symbol t = Some ''SHIPYARD'')) \<longrightarrow>
      (\<exists>n. sent (snd (Waypoint_shipyard v self obj ctx w))
            = sent w @ replicate (Suc n) (build_request GET spath None JUndefined w))
      \<and> (api v GET spath None JUndefined 0 w = (Throw (ApiError 404 msg), w') \<longrightarrow>
          Waypoint_shipyard v self obj ctx w = (Return JNull, w')))
   \<and> (\<not> truthy (opt (cachedMarkets w key) ''transactions'')
        \<and> (obj_traits obj = None
            \<or> (v = Part_000 \<and> obj_traits obj = Some ts
                \<and> (\<exists>t\<in>set ts. trait_symbol t = Some ''MARKETPLACE''))) \<longrightarrow>
      (\<exists>n. sent (snd (Waypoint_market v self obj ctx w))
            = sent w @ replicate (Suc n) (build_request GET mpath None JUndefined w))
      \<and> (api v GET mpath None JUndefined 0 w = (Throw (ApiError 404 msg), w') \<longrightarrow>
          Waypoint_market v self obj ctx w = (Return JNull, w')))
   \<and> (\<not> truthy (cachedJumpGates w key) \<and> obj_type obj = Some ''JUMP_GATE'' \<longrightarrow>
      (\<exists>n. sent (snd (Waypoint_jumpGate v self obj ctx w))
            = sent w @ replicate (Suc n) (build_request GET jpath None JUndefined w))
      \<and> (api v GET jpath None JUndefined 0 w
            = (Throw (ApiError (case v of Index_ts \<Rightarrow> 400 | Part_000 \<Rightarrow> 404) msg), w') \<longrightarrow>
          Waypoint_jumpGate v self obj ctx w = (Return JNull, w')))"
proof (intro conjI impI)
  assume "obj_traits obj = Some ts \<and> (\<forall>t\<in>set ts. trait_symbol t \<noteq> Some ''SHIPYARD'')"
  then have "ruled_out v ''SHIPYARD'' obj" by (intro ruled_out_lacking[of obj ts]) simp_all
  then show "Waypoint_shipyard v self obj ctx w = (Return JNull, w)"
    by (rule Waypoint_shipyard_ruled_out)
next
  assume a: "\<not> truthy (opt (cachedMarkets w key) ''transactions'')
        \<and> obj_traits obj = Some ts \<and> (\<forall>t\<in>set ts. trait_symbol t \<noteq> Some ''MARKETPLACE'')"
  then have "ruled_out v ''MARKETPLACE'' obj" by (intro ruled_out_lacking[of obj ts]) simp_all
  with a show "Waypoint_market v self obj ctx w = (Return JNull, w)"
    unfolding assms(1) by (intro Waypoint_market_ruled_out) simp_all
next
  assume "\<not> truthy (cachedJumpGates w key) \<and> obj_type obj \<noteq> Some ''JUMP_GATE''"
  then show "Waypoint_jumpGate v self obj ctx w = (Return JNull, w)"
    unfolding assms(1) by (intro Waypoint_jumpGate_ruled_out) simp_all
next
  assume "truthy (opt (cachedMarkets w key) ''transactions'')"
  then show "Waypoint_market v self obj ctx w = (Return (cachedMarkets w key), w)"
    unfolding assms(1) by (rule Waypoint_market_hit)
next
  assume "truthy (cachedJumpGates w key)"
  then show "Waypoint_jumpGate v self obj ctx w = (Return (cachedJumpGates w key), w)"
    unfolding assms(1) by (rule Waypoint_jumpGate_hit)
next
  assume "obj_traits obj = None
        \<or> (v = Part_000 \<and> obj_traits obj = Some ts
            \<and> (\<exists>t\<in>set ts. trait_symbol t = Some ''SHIPYARD''))"
  then have n: "\<not> ruled_out v ''SHIPYARD'' obj" by (rule not_ruled_out)
  show "\<exists>n. sent (snd (Waypoint_shipyard v self obj ctx w))
            = sent w @ replicate (Suc n) (build_request GET spath None JUndefined w)"
    using n assms(2) by (rule Waypoint_shipyard_fetch(1))
  assume "api v GET spath None JUndefined 0 w = (Throw (ApiError 404 msg), w')"
  with n assms(2) show "Waypoint_shipyard v self obj ctx w = (Return JNull, w')"
    by (rule Waypoint_shipyard_fetch(2))
next
  assume a: "\<not> truthy (opt (cachedMarkets w key) ''transactions'')
        \<and> (obj_traits obj = None
            \<or> (v = Part_000 \<and> obj_traits obj = Some ts
                \<and> (\<exists>t\<in>set ts. trait_symbol t = Some ''MARKETPLACE'')))"
  then have n: "\<not> ruled_out v ''MARKETPLACE'' obj" by (intro not_ruled_out[of obj v ts]) simp
  from a have m: "\<not> truthy (opt (cachedMarkets w (tpl (waypoint_of self obj))) ''transactions'')"
    unfolding assms(1) by simp
  show "\<exists>n. sent (snd (Waypoint_market v self obj ctx w))
            = sent w @ replicate (Suc n) (build_request GET mpath None JUndefined w)"
    using m n assms(3) by (rule Waypoint_market_fetch(1))
  assume "api v GET mpath None JUndefined 0 w = (Throw (ApiError 404 msg), w')"
  with m n assms(3) show "Waypoint_market v self obj ctx w = (Return JNull, w')"
    by (rule Waypoint_market_fetch(2))
next
  assume a: "\<not> truthy (cachedJumpGates w key) \<and> obj_type obj = Some ''JUMP_GATE''"
  then have m: "\<not> truthy (cachedJumpGates w (tpl (waypoint_of self obj)))"
    and t: "obj_type obj = Some ''JUMP_GATE''"
    unfolding assms(1) by simp_all
  show "\<exists>n. sent (snd (Waypoint_jumpGate v self obj ctx w))
            = sent w @ replicate (Suc n) (build_request GET jpath None JUndefined w)"
    using m t assms(4) refl by (rule Waypoint_jumpGate_fetch(1))
  assume "api v GET jpath None JUndefined 0 w
            = (Throw (ApiError (case v of Index_ts \<Rightarrow> 400 | Part_000 \<Rightarrow> 404) msg), w')"
  with m t assms(4) refl show "Waypoint_jumpGate v self obj ctx w = (Return JNull, w')"
    by (rule Waypoint_jumpGate_fetch(2))
qed

theorem conditional_resolvers_witness:
  "Waypoint_shipyard Index_ts wp_ref barren_waypoint no_context (fresh_world [not_found])
     = (Return JNull, fresh_world [not_found])
   \<and> Waypoint_market Part_000 wp_ref barren_waypoint no_context (fresh_world [not_found])
     = (Return JNull, fresh_world [not_found])
   \<and> Waypoint_jumpGate Index_ts wp_ref barren_waypoint no_context (fresh_world [bad_request])
     = (Return JNull, fresh_world [bad_request])
   \<and> Waypoint_shipyard Part_000 wp_ref trading_post no_context (fresh_world [not_found])
     = (Return JNull, \<lparr> data = JUndefined, cachedMarkets = (\<lambda>k. JUndefined),
          cachedJumpGates = (\<lambda>k. JUndefined), script = [], sent = [shipyard_request],
          scheduled = [] \<rparr>)
   \<and> Waypoint_market Index_ts wp_ref bare_waypoint no_context (fresh_world [not_found])
     = (Return JNull, \<lparr> data = JUndefined, cachedMarkets = (\<lambda>k. JUndefined),
          cachedJumpGates = (\<lambda>k. JUndefined), script = [], sent = [market_request],
          scheduled = [] \<rparr>)
   \<and> Waypoint_jumpGate Index_ts wp_ref gate no_context (fresh_world [bad_request])
     = (Return JNull, \<lparr> data = JUndefined, cachedMarkets = (\<lambda>k. JUndefined),
          cachedJumpGates = (\<lambda>k. JUndefined), script = [], sent = [gate_request],
          scheduled = [] \<rparr>)"
  using conditional_resolvers[where key = "''X1-AB12-XYZ''" and self = wp_ref
          and obj = barren_waypoint and ctx = no_context and v = Index_ts
          and w = "fresh_world [not_found]" and ts = "[Trait (Some ''BARREN'')]"
          and spath = "''systems/X1-AB12/waypoints/X1-AB12-XYZ/shipyard''"
          and mpath = "''systems/X1-AB12/waypoints/X1-AB12-XYZ/market''"
          and jpath = "''systems/X1-AB12/waypoints/X1-AB12-XYZ/jump-gate''"]
        conditional_resolvers[where key = "''X1-AB12-XYZ''" and self = wp_ref
          and obj = barren_waypoint and ctx = no_context and v = Part_000
          and w = "fresh_world [not_found]" and ts = "[Trait (Some ''BARREN'')]"
          and spath = "''systems/X1-AB12/waypoints/X1-AB12-XYZ/shipyard''"
          and mpath = "''systems/X1-AB12/waypoints/X1-AB12-XYZ/market''"
          and jpath = "''systems/X1-AB12/waypoints/X1-AB12-XYZ/jump-gate''"]
        conditional_resolvers[where key = "''X1-AB12-XYZ''" and self = wp_ref
          and obj = barren_waypoint and ctx = no_context and v = Index_ts
          and w = "fresh_world [bad_request]"
          and spath = "''systems/X1-AB12/waypoints/X1-AB12-XYZ/shipyard''"
          and mpath = "''systems/X1-AB12/waypoints/X1-AB12-XYZ/market''"
          and jpath = "''systems/X1-AB12/waypoints/X1-AB12-XYZ/jump-gate''"]
        conditional_resolvers[where key = "''X1-AB12-XYZ''" and self = wp_ref
          and obj = trading_post and ctx = no_context and v = Part_000
          and w = "fresh_world [not_found]"
          and ts = "[Trait (Some ''MARKETPLACE''), Trait (Some ''SHIPYARD'')]"
          and msg = "text_body not_found"
          and w' = "\<lparr> data = JUndefined, cachedMarkets = (\<lambda>k. JUndefined),
             cachedJumpGates = (\<lambda>k. JUndefined), script = [], sent = [shipyard_request],
             scheduled = [] \<rparr>"
          and spath = "''systems/X1-AB12/waypoints/X1-AB12-XYZ/shipyard''"
          and mpath = "''systems/X1-AB12/waypoints/X1-AB12-XYZ/market''"
          and jpath = "''systems/X1-AB12/waypoints/X1-AB12-XYZ/jump-gate''"]
        conditional_resolvers[where key = "''X1-AB12-XYZ''" and self = wp_ref
          and obj = bare_waypoint and ctx = no_context and v = Index_ts
          and w = "fresh_world [not_found]"
          and msg = "text_body not_found"
          and w' = "\<lparr> data = JUndefined, cachedMarkets = (\<lambda>k. JUndefined),
             cachedJumpGates = (\<lambda>k. JUndefined), script = [], sent = [market_request],
             scheduled = [] \<rparr>"
          and spath = "''systems/X1-AB12/waypoints/X1-AB12-XYZ/shipyard''"
          and mpath = "''systems/X1-AB12/waypoints/X1-AB12-XYZ/market''"
          and jpath = "''systems/X1-AB12/waypoints/X1-AB12-XYZ/jump-gate''"]
        conditional_resolvers[where key = "''X1-AB12-XYZ''" and self = wp_ref
          and obj = gate and ctx = no_context and v = Index_ts
          and w = "fresh_world [bad_request]"
          and msg = "text_body bad_request"
          and w' = "\<lparr> data = JUndefined, cachedMarkets = (\<lambda>k. JUndefined),
             cachedJumpGates = (\<lambda>k. JUndefined), script = [], sent = [gate_request],
             scheduled = [] \<rparr>"
          and spath = "''systems/X1-AB12/waypoints/X1-AB12-XYZ/shipyard''"
          and mpath = "''systems/X1-AB12/waypoints/X1-AB12-XYZ/market''"
          and jpath = "''systems/X1-AB12/waypoints/X1-AB12-XYZ/jump-gate''"]
  by (simp add: example_defs shipyard_request_def gate_request_def eval_defs)

section \<open>\<^verbatim>\<open>Root.parse\<close>\<close>

subsection \<open>The two regular expressions\<close>

text \<open>
  A pattern is the function that lists every way it can match at the start of a string,
  in the order the backtracking matcher tries them: the text matched, the texts of the
  capture groups inside (in the order of their opening parentheses) and the rest of the
  string. A character is one UTF-16 code unit, here below 256.
\<close>

type_synonym matcher = "string \<Rightarrow> (string \<times> string list \<times> string) list"

text \<open>
  Flag \<^verbatim>\<open>i\<close>: characters are compared after \<^verbatim>\<open>toUpperCase\<close>. Only the letters
  a to z matter here: no other character is upper-cased to \<^verbatim>\<open>X\<close>, \<^verbatim>\<open>1\<close> or \<^verbatim>\<open>-\<close>.
\<close>

definition canonicalize :: "char \<Rightarrow> char" where
  "canonicalize c =
     (case map_of (zip ''abcdefghijklmnopqrstuvwxyz'' ''ABCDEFGHIJKLMNOPQRSTUVWXYZ'') c of
        None \<Rightarrow> c
      | Some u \<Rightarrow> u)"

definition chr :: "char \<Rightarrow> matcher" where
  "chr c s =
     (case s of
        [] \<Rightarrow> []
      | x # r \<Rightarrow> if canonicalize x = canonicalize c then [([x], [], r)] else [])"

text \<open>\<^verbatim>\<open>.\<close> matches any character but a line terminator (LF, CR).\<close>

definition any_char :: matcher where
  "any_char s =
     (case s of
        [] \<Rightarrow> []
      | x # r \<Rightarrow> if x = CHR 0x0A \<or> x = CHR 0x0D then [] else [([x], [], r)])"

definition seq :: "matcher \<Rightarrow> matcher \<Rightarrow> matcher" where
  "seq p q s =
     concat (map (\<lambda>(a, ca, r). map (\<lambda>(b, cb, r'). (a @ b, ca @ cb, r')) (q r)) (p s))"

text \<open>\<^verbatim>\<open>p{lo,hi}\<close>, greedy: one more \<open>p\<close> is tried before stopping.\<close>

fun repeat :: "matcher \<Rightarrow> nat \<Rightarrow> nat \<Rightarrow> matcher" where
  "repeat p lo 0 s = (if lo = 0 then [([], [], s)] else [])"
| "repeat p lo (Suc hi) s =
     seq p (repeat p (lo - 1) hi) s @ (if lo = 0 then [([], [], s)] else [])"

text \<open>\<^verbatim>\<open>(p)\<close>: the group's text comes before the captures of the groups inside.\<close>

definition group :: "matcher \<Rightarrow> matcher" where
  "group p s = map (\<lambda>(a, ca, r). (a, a # ca, r)) (p s)"

text \<open>The leftmost match: the first way at the first position that has one.\<close>

fun search :: "matcher \<Rightarrow> string \<Rightarrow> (string \<times> string list) option" where
  "search p s =
     (case p s of
        (a, ca, r) # others \<Rightarrow> Some (a, ca)
      | [] \<Rightarrow> (case s of [] \<Rightarrow> None | x # t \<Rightarrow> search p t))"

text \<open>
  \<^verbatim>\<open>value.match(re)\<close> for a regular expression without flag \<^verbatim>\<open>g\<close>: \<^verbatim>\<open>null\<close>, or
  the array of the match and its groups.
\<close>

definition js_match :: "matcher \<Rightarrow> string \<Rightarrow> string list option" where
  "js_match re s = (case search re s of None \<Rightarrow> None | Some (a, ca) \<Rightarrow> Some (a # ca))"

text \<open>\<^verbatim>\<open>new RegExp("(X1-.{3,4})", "i")\<close> and \<^verbatim>\<open>new RegExp("((X1-.{3,4})-.{3,6})", "i")\<close>\<close>

definition system_re :: matcher where
  "system_re =
     group (seq (chr CHR ''X'') (seq (chr CHR ''1'') (seq (chr CHR ''-'') (repeat any_char 3 4))))"

definition waypoint_re :: matcher where
  "waypoint_re = group (seq system_re (seq (chr CHR ''-'') (repeat any_char 3 6)))"

subsection \<open>\<^verbatim>\<open>parse({ name, value })\<close>\<close>

text \<open>
  \<^verbatim>\<open>const [, a, b] = m\<close>: destructuring \<^verbatim>\<open>null\<close> throws a TypeError; an element the
  array does not have is \<^verbatim>\<open>undefined\<close>.
\<close>

definition element :: "string list \<Rightarrow> nat \<Rightarrow> sym" where
  "element m i = (if i < length m then Some (m ! i) else None)"

definition Root_parse :: "string \<Rightarrow> string \<Rightarrow> error + gref list" where
  "Root_parse name val =
     (if name = ''system''
      then (case js_match system_re val of
              None \<Rightarrow> Inl TypeError
            | Some m \<Rightarrow>
                if truthy_sym (element m 1) then Inr [Systems_one (element m 1)] else Inr [])
      else if name = ''waypoint''
      then (case js_match waypoint_re val of
              None \<Rightarrow> Inl TypeError
            | Some m \<Rightarrow>
                if truthy_sym (element m 1) \<and> truthy_sym (element m 2)
                then Inr [Waypoints_one (element m 2) (element m 1)]
                else Inr [])
      else Inr [])"

lemmas re_defs = js_match_def system_re_def waypoint_re_def group_def seq_def chr_def any_char_def
  canonicalize_def element_def truthy_sym_def

subsection \<open>What \<^verbatim>\<open>parse\<close> returns\<close>

lemma Root_parse_other_name:
  "name \<noteq> ''system'' \<Longrightarrow> name \<noteq> ''waypoint'' \<Longrightarrow> Root_parse name val = Inr []"
  by (simp add: Root_parse_def)

lemma Root_parse_no_match:
  "js_match system_re val = None \<Longrightarrow> Root_parse ''system'' val = Inl TypeError"
  "js_match waypoint_re val = None \<Longrightarrow> Root_parse ''waypoint'' val = Inl TypeError"
  by (simp_all add: Root_parse_def)

text \<open>
  A match of either expression is never empty, and neither are its groups: for the names
  \<^verbatim>\<open>system\<close> and \<^verbatim>\<open>waypoint\<close> the tests \<^verbatim>\<open>if (system)\<close> and
  \<^verbatim>\<open>if (waypoint && system)\<close> always succeed after a match, and the final
  \<^verbatim>\<open>return []\<close> is never reached.
\<close>

lemma search_Some:
  "search p s = Some (a, ca) \<Longrightarrow> \<exists>t r. (a, ca, r) \<in> set (p t)"
proof (induction s)
  case Nil
  then show ?case by (auto split: list.splits) (metis list.set_intros(1))
next
  case (Cons x s)
  show ?case
  proof (cases "p (x # s)")
    case Nil
    with Cons show ?thesis by simp
  next
    case (Cons y ys)
    with Cons.prems have "y = (a, ca, snd (snd y))" by (cases y) auto
    then have "(a, ca, snd (snd y)) \<in> set (p (x # s))" using Cons by (metis list.set_intros(1))
    then show ?thesis by blast
  qed
qed

lemma seq_set:
  "(a, ca, r) \<in> set (seq p q s) \<Longrightarrow>
   \<exists>a1 c1 r1 a2 c2. (a1, c1, r1) \<in> set (p s) \<and> (a2, c2, r) \<in> set (q r1) \<and> a = a1 @ a2 \<and> ca = c1 @ c2"
  by (auto simp: seq_def) blast

lemma chr_set: "(a, ca, r) \<in> set (chr c s) \<Longrightarrow> a \<noteq> [] \<and> ca = []"
  by (auto simp: chr_def split: list.splits if_splits)

lemma any_char_set: "(a, ca, r) \<in> set (any_char s) \<Longrightarrow> ca = []"
  by (auto simp: any_char_def split: list.splits if_splits)

lemma repeat_any_char_set: "(a, ca, r) \<in> set (repeat any_char lo hi s) \<Longrightarrow> ca = []"
proof (induction hi arbitrary: lo s a ca r)
  case 0
  then show ?case by (auto split: if_splits)
next
  case (Suc hi)
  from Suc.prems show ?case
    by (auto dest!: seq_set any_char_set Suc.IH split: if_splits)
qed

lemma system_re_set:
  "(a, ca, r) \<in> set (system_re s) \<Longrightarrow> a \<noteq> [] \<and> ca = [a]"
  unfolding system_re_def group_def
  by (auto dest!: seq_set chr_set repeat_any_char_set)

lemma waypoint_re_set:
  "(a, ca, r) \<in> set (waypoint_re s) \<Longrightarrow> \<exists>b. a \<noteq> [] \<and> b \<noteq> [] \<and> ca = [a, b]"
  unfolding waypoint_re_def group_def
  by (auto dest!: seq_set chr_set repeat_any_char_set system_re_set)

lemma Root_parse_system_never_empty: "Root_parse ''system'' val \<noteq> Inr []"
proof (cases "search system_re val")
  case None
  then show ?thesis by (simp add: Root_parse_def js_match_def)
next
  case (Some m)
  obtain a ca where m: "m = (a, ca)" by (cases m)
  from search_Some[OF Some[unfolded m]] system_re_set have "a \<noteq> []" "ca = [a]" by blast+
  then show ?thesis using Some m
    by (simp add: Root_parse_def js_match_def element_def truthy_sym_def)
qed

lemma Root_parse_waypoint_never_empty: "Root_parse ''waypoint'' val \<noteq> Inr []"
proof (cases "search waypoint_re val")
  case None
  then show ?thesis by (simp add: Root_parse_def js_match_def)
next
  case (Some m)
  obtain a ca where m: "m = (a, ca)" by (cases m)
  from search_Some[OF Some[unfolded m]] waypoint_re_set obtain b
    where "a \<noteq> []" "b \<noteq> []" "ca = [a, b]" by blast
  then show ?thesis using Some m
    by (simp add: Root_parse_def js_match_def element_def truthy_sym_def)
qed

text \<open>
  Claim C4. An input that matches the system pattern parses as one system reference, an
  input that matches the waypoint pattern as one waypoint reference with its system, and
  an input that matches neither yields the empty result and no error. The first two
  hold (\<^verbatim>\<open>X1-AB12\<close> and \<^verbatim>\<open>X1-AB12-XYZ\<close> below). The third does not: when the
  pattern selected by \<^verbatim>\<open>name\<close> does not match, \<^verbatim>\<open>value.match\<close> is null and the
  array destructuring throws a TypeError before the test that leads to \<^verbatim>\<open>return []\<close>
  (\<open>Root_parse_no_match\<close>). The text \<^verbatim>\<open>hello\<close> parsed as a system, and the system
  symbol \<^verbatim>\<open>X1-AB12\<close> parsed as a waypoint, match nothing and throw.
\<close>

theorem Root_parse_throws_when_nothing_matches:
  "js_match system_re ''hello'' = None
   \<and> Root_parse ''system'' ''hello'' = Inl TypeError
   \<and> js_match waypoint_re ''X1-AB12'' = None
   \<and> Root_parse ''waypoint'' ''X1-AB12'' = Inl TypeError
   \<and> Root_parse ''system'' ''X1-AB12'' = Inr [Systems_one (Some ''X1-AB12'')]
   \<and> Root_parse ''waypoint'' ''X1-AB12-XYZ''
     = Inr [Waypoints_one (Some ''X1-AB12'') (Some ''X1-AB12-XYZ'')]"
  by (simp add: Root_parse_def re_defs eval_nat_numeral)

end
